theory Spec2Isabelle
  imports Complex_Main "HOL-Library.Sublist" "HOL-Library.Multiset"
begin

section \<open>Python values used by app.py\<close>

text \<open>
  Python strings are modelled as \<^typ>\<open>string\<close>; a character stands for one code point
  below 256. Clock readings (\<open>time.time()\<close>, \<open>datetime.utcnow()\<close>, the store's
  \<open>created_at\<close> stamp) are seconds since the epoch as a \<^typ>\<open>real\<close>; the ISO text of a
  timestamp is not modelled.
\<close>

type_synonym user_id = string

text \<open>\<open>str.isspace\<close> on the code points below 256.\<close>

definition isspace :: "char \<Rightarrow> bool" where
  "isspace c =
     (let n = (of_char c :: nat)
      in (9 \<le> n \<and> n \<le> 13) \<or> (28 \<le> n \<and> n \<le> 32) \<or> n = 133 \<or> n = 160)"

text \<open>\<open>str.strip()\<close>: leading and trailing whitespace removed.\<close>

definition strip :: "string \<Rightarrow> string" where
  "strip s = rev (dropWhile isspace (rev (dropWhile isspace s)))"

text \<open>\<open>str.lower()\<close> on the code points below 256.\<close>

definition lower_char :: "char \<Rightarrow> char" where
  "lower_char c =
     (let n = (of_char c :: nat)
      in if (65 \<le> n \<and> n \<le> 90) \<or> (192 \<le> n \<and> n \<le> 222 \<and> n \<noteq> 215)
         then char_of (n + 32) else c)"

definition lower :: "string \<Rightarrow> string" where
  "lower s = map lower_char s"

text \<open>\<open>str(n)\<close> of an integer: its decimal digits.\<close>

function str_nat :: "nat \<Rightarrow> string" where
  "str_nat n =
     (if n < 10 then [''0123456789'' ! n]
      else str_nat (n div 10) @ [''0123456789'' ! (n mod 10)])"
  by pat_completeness auto
termination
  by (relation "measure (\<lambda>n. n)") auto

declare str_nat.simps [simp del]

definition str_int :: "int \<Rightarrow> string" where
  "str_int i = (if i < 0 then CHR ''-'' # str_nat (nat (- i)) else str_nat (nat i))"

text \<open>\<open>int(x)\<close> of a float: the fraction is dropped, towards zero.\<close>

definition py_int :: "real \<Rightarrow> int" where
  "py_int x = (if x < 0 then \<lceil>x\<rceil> else \<lfloor>x\<rfloor>)"

text \<open>
  A message id is whatever the producer made: the store assigns its own key, the demo
  path builds a string.
\<close>

datatype ident = Key nat | Str string

record user =
  u_id :: user_id
  u_username :: string
  u_display_name :: string
  u_avatar_url :: string
  u_status :: string

text \<open>
  The value stored under \<open>"user_profiles"\<close>: a row of the \<open>user_profiles\<close> table, or a
  literal dict with the two keys \<open>display_name\<close> and \<open>username\<close>.
\<close>

datatype profile_dict = Row user | Names string string

definition unknown_profile :: profile_dict where
  "unknown_profile = Names ''Unknown User'' ''unknown''"

record channel =
  ch_id :: int
  ch_name :: string

record member =
  cm_user_id :: user_id
  cm_channel_id :: int

record message =
  m_id :: ident
  m_user_id :: user_id
  m_channel_id :: "int option"
  m_recipient_id :: "user_id option"
  m_content :: string
  m_message_type :: string
  m_created_at :: real
  m_user_profiles :: "profile_dict option"

record reaction =
  r_message_id :: ident
  r_user_id :: user_id
  r_emoji :: string
  r_user_profiles :: "profile_dict option"

section \<open>The table store\<close>

text \<open>
  Modelled from the spec: the hosted table store behind \<open>auth_supabase\<close> and the schema
  it runs (schema.sql) are not among the sources. Section 6 of the specification gives
  its contract: insert, select with equality and OR filters, ordered and limited select,
  delete by composite key; a duplicate \<open>(message_id, user_id, emoji)\<close> reaction and a
  duplicate \<open>(user_id, channel_id)\<close> membership are rejected with a duplicate-key
  condition. Any call may fail: \<open>faults\<close> gives, for the n-th call made, the text of the
  exception it raises, if any. A table is the list of its rows in the order the store
  holds them, new rows last; an ordered select is a stable sort of that list, so rows
  that tie on the key come in the order they are held.
\<close>

record store =
  user_profiles :: "user list"
  channels :: "channel list"
  channel_members :: "member list"
  messages :: "message list"
  message_reactions :: "reaction list"
  next_id :: nat
  calls :: nat
  faults :: "nat \<Rightarrow> string option"

definition duplicate_key_msg :: string where
  "duplicate_key_msg = ''duplicate key value violates unique constraint''"

text \<open>Modelled from the spec: one request to the table store (\<open>.execute()\<close>).\<close>

definition execute ::
  "store \<Rightarrow> (store \<Rightarrow> (string + 'a) \<times> store) \<Rightarrow> (string + 'a) \<times> store" where
  "execute s q =
     (let s1 = s\<lparr>calls := Suc (calls s)\<rparr>
      in case faults s (calls s) of Some e \<Rightarrow> (Inl e, s1) | None \<Rightarrow> q s1)"

text \<open>Modelled from the spec: the requests app.py composes.\<close>

definition channel_rows :: "message list \<Rightarrow> int \<Rightarrow> nat \<Rightarrow> message list" where
  "channel_rows tbl channel_id limit =
     take limit (sort_key m_created_at (filter (\<lambda>m. m_channel_id m = Some channel_id) tbl))"

definition select_channel_messages ::
  "store \<Rightarrow> int \<Rightarrow> nat \<Rightarrow> (string + message list) \<times> store" where
  "select_channel_messages s channel_id limit =
     execute s (\<lambda>s1. (Inr (channel_rows (messages s1) channel_id limit), s1))"

definition dm_rows :: "message list \<Rightarrow> user_id \<Rightarrow> user_id \<Rightarrow> nat \<Rightarrow> message list" where
  "dm_rows tbl user_id other_user_id limit =
     take limit (sort_key m_created_at
       (filter (\<lambda>m. m_channel_id m = None \<and>
                 ((m_user_id m = user_id \<and> m_recipient_id m = Some other_user_id) \<or>
                  (m_user_id m = other_user_id \<and> m_recipient_id m = Some user_id))) tbl))"

definition select_direct_messages ::
  "store \<Rightarrow> user_id \<Rightarrow> user_id \<Rightarrow> nat \<Rightarrow> (string + message list) \<times> store" where
  "select_direct_messages s user_id other_user_id limit =
     execute s (\<lambda>s1. (Inr (dm_rows (messages s1) user_id other_user_id limit), s1))"

definition select_profile :: "store \<Rightarrow> user_id \<Rightarrow> (string + user list) \<times> store" where
  "select_profile s uid =
     execute s (\<lambda>s1. (Inr (filter (\<lambda>u. u_id u = uid) (user_profiles s1)), s1))"

definition select_profiles :: "store \<Rightarrow> user_id option \<Rightarrow> (string + user list) \<times> store" where
  "select_profiles s neq =
     execute s (\<lambda>s1.
       (Inr (case neq of None \<Rightarrow> user_profiles s1
             | Some x \<Rightarrow> filter (\<lambda>u. u_id u \<noteq> x) (user_profiles s1)), s1))"

definition select_user_channels :: "store \<Rightarrow> user_id \<Rightarrow> (string + channel list) \<times> store" where
  "select_user_channels s uid =
     execute s (\<lambda>s1.
       (Inr (filter (\<lambda>c. \<exists>m \<in> set (channel_members s1).
                          cm_channel_id m = ch_id c \<and> cm_user_id m = uid) (channels s1)), s1))"

definition reaction_rows :: "reaction list \<Rightarrow> ident \<Rightarrow> reaction list" where
  "reaction_rows tbl message_id = filter (\<lambda>r. r_message_id r = message_id) tbl"

definition select_reactions :: "store \<Rightarrow> ident \<Rightarrow> (string + reaction list) \<times> store" where
  "select_reactions s message_id =
     execute s (\<lambda>s1. (Inr (reaction_rows (message_reactions s1) message_id), s1))"

definition insert_message ::
  "store \<Rightarrow> real \<Rightarrow> user_id \<Rightarrow> int option \<Rightarrow> user_id option \<Rightarrow> string \<Rightarrow> string
     \<Rightarrow> (string + message list) \<times> store" where
  "insert_message s t uid channel_id recipient_id content message_type =
     execute s (\<lambda>s1.
       (let row = \<lparr>m_id = Key (next_id s1), m_user_id = uid, m_channel_id = channel_id,
                   m_recipient_id = recipient_id, m_content = content,
                   m_message_type = message_type, m_created_at = t,
                   m_user_profiles = None\<rparr>
        in (Inr [row], s1\<lparr>messages := messages s1 @ [row], next_id := Suc (next_id s1)\<rparr>)))"

definition same_reaction :: "ident \<Rightarrow> user_id \<Rightarrow> string \<Rightarrow> reaction \<Rightarrow> bool" where
  "same_reaction message_id uid emoji r =
     (r_message_id r = message_id \<and> r_user_id r = uid \<and> r_emoji r = emoji)"

definition insert_reaction ::
  "store \<Rightarrow> ident \<Rightarrow> user_id \<Rightarrow> string \<Rightarrow> (string + reaction list) \<times> store" where
  "insert_reaction s message_id uid emoji =
     execute s (\<lambda>s1.
       if \<exists>r \<in> set (message_reactions s1). same_reaction message_id uid emoji r
       then (Inl duplicate_key_msg, s1)
       else (let row = \<lparr>r_message_id = message_id, r_user_id = uid, r_emoji = emoji,
                        r_user_profiles = None\<rparr>
             in (Inr [row], s1\<lparr>message_reactions := message_reactions s1 @ [row]\<rparr>)))"

definition delete_reaction ::
  "store \<Rightarrow> ident \<Rightarrow> user_id \<Rightarrow> string \<Rightarrow> (string + reaction list) \<times> store" where
  "delete_reaction s message_id uid emoji =
     execute s (\<lambda>s1.
       (Inr (filter (same_reaction message_id uid emoji) (message_reactions s1)),
        s1\<lparr>message_reactions :=
              filter (\<lambda>r. \<not> same_reaction message_id uid emoji r) (message_reactions s1)\<rparr>))"

definition same_member :: "user_id \<Rightarrow> int \<Rightarrow> member \<Rightarrow> bool" where
  "same_member uid channel_id m = (cm_user_id m = uid \<and> cm_channel_id m = channel_id)"

definition insert_member :: "store \<Rightarrow> user_id \<Rightarrow> int \<Rightarrow> (string + member list) \<times> store" where
  "insert_member s uid channel_id =
     execute s (\<lambda>s1.
       if \<exists>m \<in> set (channel_members s1). same_member uid channel_id m
       then (Inl duplicate_key_msg, s1)
       else (let row = \<lparr>cm_user_id = uid, cm_channel_id = channel_id\<rparr>
             in (Inr [row], s1\<lparr>channel_members := channel_members s1 @ [row]\<rparr>)))"

section \<open>Session state and the world a call runs in\<close>

text \<open>
  \<open>st.session_state\<close> as initialised at lines 586-597 of app.py; \<open>demo_messages\<close> is the
  dict keyed by the conversation key.
\<close>

record session_state =
  current_channel :: "channel option"
  current_dm_user :: "user option"
  view_mode :: string
  message_count :: nat
  last_refresh :: real
  demo_messages :: "string \<rightharpoonup> message list"

text \<open>
  \<open>db\<close> is the table store, \<open>ss\<close> the session state, \<open>now\<close> the clock reading during the
  call, \<open>shown\<close> the texts passed to \<open>st.error\<close> so far.
\<close>

record world =
  db :: store
  ss :: session_state
  now :: real
  shown :: "string list"

definition st_error :: "world \<Rightarrow> string \<Rightarrow> world" where
  "st_error w msg = w\<lparr>shown := shown w @ [msg]\<rparr>"

definition demo_user_ids :: "user_id list" where
  "demo_user_ids =
     [''a1b2c3d4-e5f6-7890-abcd-ef1234567890'', ''b2c3d4e5-f6g7-8901-bcde-fg2345678901'']"

section \<open>Writing messages\<close>

text \<open>\<open>send_message\<close> (app.py 507-519).\<close>

definition send_message :: "world \<Rightarrow> user_id \<Rightarrow> int \<Rightarrow> string \<Rightarrow> message option \<times> world" where
  "send_message w user_id channel_id content =
     (case insert_message (db w) (now w) user_id (Some channel_id) None (strip content) ''text'' of
        (Inr dat, s1) \<Rightarrow> ((case dat of [] \<Rightarrow> None | r # _ \<Rightarrow> Some r), w\<lparr>db := s1\<rparr>)
      | (Inl e, s1) \<Rightarrow> (None, st_error (w\<lparr>db := s1\<rparr>) (''Error sending message: '' @ e)))"

text \<open>\<open>send_direct_message\<close> (app.py 368-396).\<close>

definition send_direct_message ::
  "world \<Rightarrow> user_id \<Rightarrow> user_id \<Rightarrow> string \<Rightarrow> message option \<times> world" where
  "send_direct_message w user_id recipient_id content =
     (if recipient_id \<in> set demo_user_ids then
        (Some \<lparr>m_id = Str (''demo-msg-'' @ str_int (py_int (now w))), m_user_id = user_id,
               m_channel_id = None, m_recipient_id = Some recipient_id,
               m_content = strip content, m_message_type = ''text'',
               m_created_at = now w, m_user_profiles = None\<rparr>, w)
      else
        (case insert_message (db w) (now w) user_id None (Some recipient_id) (strip content) ''text'' of
           (Inr dat, s1) \<Rightarrow> ((case dat of [] \<Rightarrow> None | r # _ \<Rightarrow> Some r), w\<lparr>db := s1\<rparr>)
         | (Inl e, s1) \<Rightarrow> (None, st_error (w\<lparr>db := s1\<rparr>) (''Error sending direct message: '' @ e))))"

text \<open>
  The send-button handler (app.py 880-899). The result says whether \<open>st.rerun()\<close> was
  called.
\<close>

definition handle_send :: "world \<Rightarrow> user_id \<Rightarrow> bool \<Rightarrow> string \<Rightarrow> world \<times> bool" where
  "handle_send w user_id send_button message_input =
     (if send_button \<and> message_input \<noteq> [] \<and> strip message_input \<noteq> [] then
        (let (sent_message, w1) =
               (case (view_mode (ss w) = ''channel'', current_channel (ss w)) of
                  (True, Some c) \<Rightarrow> send_message w user_id (ch_id c) message_input
                | _ \<Rightarrow>
                  (case (view_mode (ss w) = ''dm'', current_dm_user (ss w)) of
                     (True, Some d) \<Rightarrow>
                       (let (sent, w2) = send_direct_message w user_id (u_id d) message_input
                        in case (u_id d \<in> set demo_user_ids, sent) of
                             (True, Some m) \<Rightarrow>
                               (let conversation_key = user_id @ ''_'' @ u_id d;
                                    dm = demo_messages (ss w2);
                                    old = (case dm conversation_key of None \<Rightarrow> [] | Some l \<Rightarrow> l)
                                in (sent, w2\<lparr>ss := (ss w2)\<lparr>demo_messages :=
                                                   dm(conversation_key \<mapsto> old @ [m])\<rparr>\<rparr>))
                           | _ \<Rightarrow> (sent, w2))
                   | _ \<Rightarrow> (None, w)))
         in case sent_message of
              Some m \<Rightarrow> (w1\<lparr>ss := (ss w1)\<lparr>message_count := Suc (message_count (ss w1))\<rparr>\<rparr>, True)
            | None \<Rightarrow> (w1, False))
      else (w, False))"

section \<open>Reading messages\<close>

text \<open>
  The body of the inner \<open>try\<close>/\<open>except\<close> that get_channel_messages (268-281),
  get_direct_messages (349-361) and get_message_reactions (489-502) each run per row:
  the first profile row with that id, or the placeholder when there is none or when the
  lookup raises.
\<close>

definition lookup_profile :: "store \<Rightarrow> user_id \<Rightarrow> profile_dict \<times> store" where
  "lookup_profile s uid =
     (case select_profile s uid of
        (Inr (u # _), s1) \<Rightarrow> (Row u, s1)
      | (Inr [], s1) \<Rightarrow> (unknown_profile, s1)
      | (Inl e, s1) \<Rightarrow> (unknown_profile, s1))"

text \<open>The loop \<open>for message in messages\<close> of the two message readers.\<close>

fun attach_profiles :: "store \<Rightarrow> message list \<Rightarrow> message list \<times> store" where
  "attach_profiles s [] = ([], s)"
| "attach_profiles s (m # ms) =
     (let (p, s1) = lookup_profile s (m_user_id m);
          (ms', s2) = attach_profiles s1 ms
      in (m\<lparr>m_user_profiles := Some p\<rparr> # ms', s2))"

text \<open>\<open>get_user_channels\<close> (app.py 242-252).\<close>

definition get_user_channels :: "world \<Rightarrow> user_id \<Rightarrow> channel list \<times> world" where
  "get_user_channels w user_id =
     (case select_user_channels (db w) user_id of
        (Inr dat, s1) \<Rightarrow> (dat, w\<lparr>db := s1\<rparr>)
      | (Inl e, s1) \<Rightarrow> ([], st_error (w\<lparr>db := s1\<rparr>) (''Error fetching channels: '' @ e)))"

definition default_limit :: nat where
  "default_limit = 50"

text \<open>\<open>get_channel_messages\<close> (app.py 254-285).\<close>

definition get_channel_messages :: "world \<Rightarrow> int \<Rightarrow> nat \<Rightarrow> message list \<times> world" where
  "get_channel_messages w channel_id limit =
     (case select_channel_messages (db w) channel_id limit of
        (Inr rows, s1) \<Rightarrow>
          (let (msgs, s2) = attach_profiles s1 rows in (msgs, w\<lparr>db := s2\<rparr>))
      | (Inl e, s1) \<Rightarrow> ([], st_error (w\<lparr>db := s1\<rparr>) (''Error fetching messages: '' @ e)))"

text \<open>
  The two scripted greetings of a demo conversation (app.py 302-319). The first text
  ends in the character U+1F44B, which lies outside the modelled code points and is
  written as the four bytes of its UTF-8 form. The timestamps are 2024-01-15 10:00:00
  and 10:01:00 UTC.
\<close>

definition demo_init :: "user_id \<Rightarrow> user_id \<Rightarrow> message list" where
  "demo_init user_id other_user_id =
     [\<lparr>m_id = Str ''demo-init-1'', m_user_id = other_user_id, m_channel_id = None,
       m_recipient_id = Some user_id,
       m_content = ''Hey! Welcome to the Slack clone! '' @
                   [char_of (240::nat), char_of (159::nat), char_of (145::nat), char_of (139::nat)],
       m_message_type = ''text'', m_created_at = 1705312800, m_user_profiles = None\<rparr>,
      \<lparr>m_id = Str ''demo-init-2'', m_user_id = other_user_id, m_channel_id = None,
       m_recipient_id = Some user_id,
       m_content = ''This is a demo conversation to show how messaging works. Try sending me a message!'',
       m_message_type = ''text'', m_created_at = 1705312860, m_user_profiles = None\<rparr>]"

text \<open>\<open>demo_user_names.get(msg["user_id"], ...)\<close> (app.py 329-333).\<close>

definition demo_user_names :: "user_id \<Rightarrow> profile_dict" where
  "demo_user_names uid =
     (if uid = ''a1b2c3d4-e5f6-7890-abcd-ef1234567890'' then Names ''Alex Johnson'' ''alex''
      else if uid = ''b2c3d4e5-f6g7-8901-bcde-fg2345678901'' then Names ''Sarah Chen'' ''sarah''
      else Names ''Demo User'' ''demo'')"

definition demo_profile :: "user_id \<Rightarrow> message \<Rightarrow> message" where
  "demo_profile user_id msg =
     (if m_user_id msg = user_id then msg\<lparr>m_user_profiles := Some (Names ''You'' ''you'')\<rparr>
      else msg\<lparr>m_user_profiles := Some (demo_user_names (m_user_id msg))\<rparr>)"

text \<open>
  \<open>get_direct_messages\<close> (app.py 287-366). In the demo branch the list returned is the
  list held in the session state, so the profiles written into its messages stay there;
  the key \<open>demo_messages\<close> is present from line 596 on.
\<close>

definition get_direct_messages ::
  "world \<Rightarrow> user_id \<Rightarrow> user_id \<Rightarrow> nat \<Rightarrow> message list \<times> world" where
  "get_direct_messages w user_id other_user_id limit =
     (if other_user_id \<in> set demo_user_ids then
        (let conversation_key = user_id @ ''_'' @ other_user_id;
             dm = demo_messages (ss w);
             held = (case dm conversation_key of
                       None \<Rightarrow> demo_init user_id other_user_id
                     | Some l \<Rightarrow> l);
             msgs = map (demo_profile user_id) held
         in (msgs, w\<lparr>ss := (ss w)\<lparr>demo_messages := dm(conversation_key \<mapsto> msgs)\<rparr>\<rparr>))
      else
        (case select_direct_messages (db w) user_id other_user_id limit of
           (Inr rows, s1) \<Rightarrow>
             (let (msgs, s2) = attach_profiles s1 rows in (msgs, w\<lparr>db := s2\<rparr>))
         | (Inl e, s1) \<Rightarrow>
             ([], st_error (w\<lparr>db := s1\<rparr>) (''Error fetching direct messages: '' @ e))))"

section \<open>Users, reactions, membership\<close>

definition alex_user :: user where
  "alex_user =
     \<lparr>u_id = ''a1b2c3d4-e5f6-7890-abcd-ef1234567890'', u_username = ''alex'',
      u_display_name = ''Alex Johnson'',
      u_avatar_url = ''https://images.unsplash.com/photo-1507003211169-0a1dd7228f2d?w=150&h=150&fit=crop&crop=face'',
      u_status = ''online''\<rparr>"

definition sarah_user :: user where
  "sarah_user =
     \<lparr>u_id = ''b2c3d4e5-f6g7-8901-bcde-fg2345678901'', u_username = ''sarah'',
      u_display_name = ''Sarah Chen'',
      u_avatar_url = ''https://images.unsplash.com/photo-1494790108755-2616b612b5bc?w=150&h=150&fit=crop&crop=face'',
      u_status = ''online''\<rparr>"

definition demo_users :: "user list" where
  "demo_users = [alex_user, sarah_user]"

text \<open>
  \<open>get_all_users\<close> (app.py 398-448). \<open>exclude_user_id\<close> is \<open>None\<close> by default; an empty
  string is as false as \<open>None\<close>.
\<close>

definition get_all_users :: "world \<Rightarrow> user_id option \<Rightarrow> user list \<times> world" where
  "get_all_users w exclude_user_id =
     (let excl = (case exclude_user_id of None \<Rightarrow> None
                  | Some x \<Rightarrow> if x = [] then None else Some x)
      in case select_profiles (db w) excl of
           (Inr users, s1) \<Rightarrow>
             (users @ (case excl of None \<Rightarrow> demo_users
                       | Some x \<Rightarrow> filter (\<lambda>u. u_id u \<noteq> x) demo_users), w\<lparr>db := s1\<rparr>)
         | (Inl e, s1) \<Rightarrow> (demo_users, st_error (w\<lparr>db := s1\<rparr>) (''Error fetching users: '' @ e)))"

text \<open>\<open>add_reaction\<close> (app.py 450-461).\<close>

definition add_reaction ::
  "world \<Rightarrow> ident \<Rightarrow> user_id \<Rightarrow> string \<Rightarrow> reaction option \<times> world" where
  "add_reaction w message_id user_id emoji =
     (case insert_reaction (db w) message_id user_id emoji of
        (Inr dat, s1) \<Rightarrow> ((case dat of [] \<Rightarrow> None | r # _ \<Rightarrow> Some r), w\<lparr>db := s1\<rparr>)
      | (Inl e, s1) \<Rightarrow> (None, w\<lparr>db := s1\<rparr>))"

text \<open>\<open>remove_reaction\<close> (app.py 463-475).\<close>

definition remove_reaction :: "world \<Rightarrow> ident \<Rightarrow> user_id \<Rightarrow> string \<Rightarrow> bool \<times> world" where
  "remove_reaction w message_id user_id emoji =
     (case delete_reaction (db w) message_id user_id emoji of
        (Inr dat, s1) \<Rightarrow> (True, w\<lparr>db := s1\<rparr>)
      | (Inl e, s1) \<Rightarrow> (False, w\<lparr>db := s1\<rparr>))"

text \<open>The loop \<open>for reaction in reactions\<close> of get_message_reactions.\<close>

fun attach_reactors :: "store \<Rightarrow> reaction list \<Rightarrow> reaction list \<times> store" where
  "attach_reactors s [] = ([], s)"
| "attach_reactors s (r # rs) =
     (let (p, s1) = lookup_profile s (r_user_id r);
          (rs', s2) = attach_reactors s1 rs
      in (r\<lparr>r_user_profiles := Some p\<rparr> # rs', s2))"

text \<open>\<open>get_message_reactions\<close> (app.py 477-505).\<close>

definition get_message_reactions :: "world \<Rightarrow> ident \<Rightarrow> reaction list \<times> world" where
  "get_message_reactions w message_id =
     (case select_reactions (db w) message_id of
        (Inr rows, s1) \<Rightarrow>
          (let (reactions, s2) = attach_reactors s1 rows in (reactions, w\<lparr>db := s2\<rparr>))
      | (Inl e, s1) \<Rightarrow> ([], w\<lparr>db := s1\<rparr>))"

text \<open>\<open>join_channel\<close> (app.py 521-532).\<close>

definition join_channel :: "world \<Rightarrow> user_id \<Rightarrow> int \<Rightarrow> bool \<times> world" where
  "join_channel w user_id channel_id =
     (case insert_member (db w) user_id channel_id of
        (Inr dat, s1) \<Rightarrow> (True, w\<lparr>db := s1\<rparr>)
      | (Inl e, s1) \<Rightarrow>
          (False, if \<not> sublist ''duplicate key'' (lower e)
                  then st_error (w\<lparr>db := s1\<rparr>) (''Error joining channel: '' @ e)
                  else w\<lparr>db := s1\<rparr>))"

section \<open>The refresh timer\<close>





section \<open>Starting points\<close>

text \<open>An empty store that never fails, and the session state of lines 586-597.\<close>

definition empty_store :: store where
  "empty_store =
     \<lparr>user_profiles = [], channels = [], channel_members = [], messages = [],
      message_reactions = [], next_id = 0, calls = 0, faults = (\<lambda>n. None)\<rparr>"

definition initial_world :: "real \<Rightarrow> world" where
  "initial_world t =
     \<lparr>db = empty_store,
      ss = \<lparr>current_channel = None, current_dm_user = None, view_mode = ''channel'',
            message_count = 0, last_refresh = t, demo_messages = Map.empty\<rparr>,
      now = t, shown = []\<rparr>"

definition alex :: user_id where
  "alex = ''a1b2c3d4-e5f6-7890-abcd-ef1234567890''"

definition sarah :: user_id where
  "sarah = ''b2c3d4e5-f6g7-8901-bcde-fg2345678901''"

text \<open>The session after the sidebar button of a user was pressed (app.py 677-681).\<close>

definition dm_world :: "real \<Rightarrow> user \<Rightarrow> world" where
  "dm_world t d =
     (initial_world t)\<lparr>ss := (ss (initial_world t))\<lparr>current_dm_user := Some d,
                                                  current_channel := None,
                                                  view_mode := ''dm''\<rparr>\<rparr>"

text \<open>The same session with a channel selected (app.py 650-654).\<close>

definition channel_world :: "real \<Rightarrow> channel \<Rightarrow> world" where
  "channel_world t c =
     (initial_world t)\<lparr>ss := (ss (initial_world t))\<lparr>current_channel := Some c,
                                                  current_dm_user := None,
                                                  view_mode := ''channel''\<rparr>\<rparr>"

definition general :: channel where
  "general = \<lparr>ch_id = 1, ch_name = ''general''\<rparr>"

text \<open>
  A store with a channel message, a direct message and a reaction whose author
  \<open>ghost\<close> has no profile row.
\<close>

definition ghost_message :: message where
  "ghost_message =
     \<lparr>m_id = Key 0, m_user_id = ''ghost'', m_channel_id = Some 1, m_recipient_id = None,
      m_content = ''boo'', m_message_type = ''text'', m_created_at = 900,
      m_user_profiles = None\<rparr>"

definition ghost_dm :: message where
  "ghost_dm =
     \<lparr>m_id = Key 1, m_user_id = ''ghost'', m_channel_id = None, m_recipient_id = Some ''u1'',
      m_content = ''psst'', m_message_type = ''text'', m_created_at = 901,
      m_user_profiles = None\<rparr>"

definition ghost_reaction :: reaction where
  "ghost_reaction =
     \<lparr>r_message_id = Key 0, r_user_id = ''ghost'', r_emoji = ''ok'', r_user_profiles = None\<rparr>"

definition ghost_world :: world where
  "ghost_world =
     (initial_world 1000)\<lparr>db := empty_store\<lparr>messages := [ghost_message, ghost_dm],
                                              message_reactions := [ghost_reaction],
                                              next_id := 2\<rparr>\<rparr>"

text \<open>
  A demo conversation grown to 51 messages: the two greetings as first read, and what
  49 posts of \<open>hi\<close> within one second add to them.
\<close>

definition crowded_world :: world where
  "crowded_world =
     (dm_world 1000 alex_user)\<lparr>ss := (ss (dm_world 1000 alex_user))\<lparr>demo_messages :=
        [''u1'' @ ''_'' @ alex \<mapsto>
           map (demo_profile ''u1'') (demo_init ''u1'' alex) @
           replicate 49
             \<lparr>m_id = Str ''demo-msg-1000'', m_user_id = ''u1'', m_channel_id = None,
              m_recipient_id = Some alex, m_content = ''hi'', m_message_type = ''text'',
              m_created_at = 1000, m_user_profiles = None\<rparr>]\<rparr>\<rparr>"

text \<open>
  A store whose channel 1 holds fifty messages, posted one a second from second 0 on.
\<close>

definition busy_world :: world where
  "busy_world =
     (channel_world 2000 general)\<lparr>db := empty_store\<lparr>messages :=
        map (\<lambda>i. \<lparr>m_id = Key i, m_user_id = ''u1'', m_channel_id = Some 1,
                   m_recipient_id = None, m_content = ''hi'', m_message_type = ''text'',
                   m_created_at = real i, m_user_profiles = None\<rparr>) [0..<50],
        next_id := 50\<rparr>\<rparr>"

text \<open>
  A store whose rows were stamped out of step with their insertion: two messages of
  channel 1 and two direct messages between \<open>u1\<close> and \<open>u2\<close>.
\<close>

definition jumbled_world :: world where
  "jumbled_world =
     (initial_world 1000)\<lparr>db := empty_store\<lparr>messages :=
        [\<lparr>m_id = Key 0, m_user_id = ''u1'', m_channel_id = Some 1, m_recipient_id = None,
          m_content = ''b'', m_message_type = ''text'', m_created_at = 5,
          m_user_profiles = None\<rparr>,
         \<lparr>m_id = Key 1, m_user_id = ''u1'', m_channel_id = None, m_recipient_id = Some ''u2'',
          m_content = ''d'', m_message_type = ''text'', m_created_at = 7,
          m_user_profiles = None\<rparr>,
         \<lparr>m_id = Key 2, m_user_id = ''u2'', m_channel_id = Some 1, m_recipient_id = None,
          m_content = ''a'', m_message_type = ''text'', m_created_at = 3,
          m_user_profiles = None\<rparr>,
         \<lparr>m_id = Key 3, m_user_id = ''u2'', m_channel_id = None, m_recipient_id = Some ''u1'',
          m_content = ''c'', m_message_type = ''text'', m_created_at = 4,
          m_user_profiles = None\<rparr>],
        next_id := 4\<rparr>\<rparr>"

text \<open>The clock moves on.\<close>

definition later :: "world \<Rightarrow> real \<Rightarrow> world" where
  "later w t = w\<lparr>now := t\<rparr>"

text \<open>A store out of reach: every call raises.\<close>

definition down_world :: world where
  "down_world =
     (initial_world 1000)\<lparr>db := empty_store\<lparr>faults := (\<lambda>n. Some ''connection refused'')\<rparr>\<rparr>"

text \<open>
  The store holds the rows of a table in an order of its own, which an ordered select
  falls back on where rows tie. Here it has rewritten the \<open>messages\<close> table: the same
  rows, held the other way round.
\<close>

definition rearranged :: "world \<Rightarrow> world" where
  "rearranged w = w\<lparr>db := (db w)\<lparr>messages := rev (messages (db w))\<rparr>\<rparr>"

text \<open>A store whose channel 1 holds two messages with one and the same stamp.\<close>

definition tied_world :: world where
  "tied_world =
     (initial_world 1000)\<lparr>db := empty_store\<lparr>messages :=
        [\<lparr>m_id = Key 0, m_user_id = ''u1'', m_channel_id = Some 1, m_recipient_id = None,
          m_content = ''a'', m_message_type = ''text'', m_created_at = 5,
          m_user_profiles = None\<rparr>,
         \<lparr>m_id = Key 1, m_user_id = ''u2'', m_channel_id = Some 1, m_recipient_id = None,
          m_content = ''b'', m_message_type = ''text'', m_created_at = 5,
          m_user_profiles = None\<rparr>],
        next_id := 2\<rparr>\<rparr>"

text \<open>The store of \<open>jumbled_world\<close>, failing its fourth call.\<close>

definition flaky_world :: world where
  "flaky_world =
     jumbled_world\<lparr>db := (db jumbled_world)\<lparr>faults :=
        (\<lambda>n. if n = 3 then Some ''timeout'' else None)\<rparr>\<rparr>"

section \<open>Notions used in the statements\<close>

text \<open>
  The profile a row gets when the lookup for its author is the n-th call made to the
  store: the placeholder if that call raises or finds no row, else the first row found.
\<close>

definition profile_at :: "store \<Rightarrow> nat \<Rightarrow> user_id \<Rightarrow> profile_dict" where
  "profile_at s n uid =
     (case faults s n of
        Some e \<Rightarrow> unknown_profile
      | None \<Rightarrow> (case filter (\<lambda>u. u_id u = uid) (user_profiles s) of
                   [] \<Rightarrow> unknown_profile
                 | u # _ \<Rightarrow> Row u))"

text \<open>
  The conversation of a user with a demo identity is in step with the clock: the clock
  reads no earlier than the second greeting's stamp, and what the conversation holds
  is in the order of its stamps, none of them later than the clock.
\<close>

definition demo_in_step :: "world \<Rightarrow> user_id \<Rightarrow> user_id \<Rightarrow> bool" where
  "demo_in_step w user_id other_user_id =
     (1705312860 \<le> now w \<and>
      (case demo_messages (ss w) (user_id @ ''_'' @ other_user_id) of
         None \<Rightarrow> True
       | Some held \<Rightarrow>
           sorted (map m_created_at held) \<and> (\<forall>m \<in> set held. m_created_at m \<le> now w)))"

section \<open>The store's requests, by outcome\<close>

lemma execute_ok:
  "faults s (calls s) = None \<Longrightarrow> execute s q = q (s\<lparr>calls := Suc (calls s)\<rparr>)"
  by (simp add: execute_def)

lemma execute_fault:
  "faults s (calls s) = Some e \<Longrightarrow> execute s q = (Inl e, s\<lparr>calls := Suc (calls s)\<rparr>)"
  by (simp add: execute_def)

lemma duplicate_key_recognised: "sublist ''duplicate key'' (lower duplicate_key_msg)"
  by (simp add: duplicate_key_msg_def lower_def lower_char_def sublist_code prefix_code)

lemma strip_nonempty: "strip c \<noteq> [] \<Longrightarrow> c \<noteq> []"
  by (auto simp: strip_def)

lemma send_message_ok:
  "faults (db w) (calls (db w)) = None \<Longrightarrow>
   send_message w u c x =
     (Some \<lparr>m_id = Key (next_id (db w)), m_user_id = u, m_channel_id = Some c,
            m_recipient_id = None, m_content = strip x, m_message_type = ''text'',
            m_created_at = now w, m_user_profiles = None\<rparr>,
      w\<lparr>db := (db w)\<lparr>calls := Suc (calls (db w)),
                      messages := messages (db w) @
                        [\<lparr>m_id = Key (next_id (db w)), m_user_id = u, m_channel_id = Some c,
                          m_recipient_id = None, m_content = strip x, m_message_type = ''text'',
                          m_created_at = now w, m_user_profiles = None\<rparr>],
                      next_id := Suc (next_id (db w))\<rparr>\<rparr>)"
  by (simp add: send_message_def insert_message_def execute_ok Let_def)

section \<open>Posting to a demo conversation\<close>

lemma send_demo_id:
  "d \<in> set demo_user_ids \<Longrightarrow>
   map_option m_id (fst (send_direct_message w u d c)) =
     Some (Str (''demo-msg-'' @ str_int (py_int (now w))))"
  by (simp add: send_direct_message_def)

lemma send_demo_world: "d \<in> set demo_user_ids \<Longrightarrow> snd (send_direct_message w u d c) = w"
  by (simp add: send_direct_message_def)

lemma handle_send_demo:
  assumes "view_mode (ss w) = ''dm''" and "current_dm_user (ss w) = Some d"
    and "u_id d \<in> set demo_user_ids" and "strip c \<noteq> []"
  shows "handle_send w u True c =
    (w\<lparr>ss := (ss w)\<lparr>demo_messages := (demo_messages (ss w))(u @ ''_'' @ u_id d \<mapsto>
          (case demo_messages (ss w) (u @ ''_'' @ u_id d) of None \<Rightarrow> [] | Some l \<Rightarrow> l) @
          [\<lparr>m_id = Str (''demo-msg-'' @ str_int (py_int (now w))), m_user_id = u,
            m_channel_id = None, m_recipient_id = Some (u_id d),
            m_content = strip c, m_message_type = ''text'',
            m_created_at = now w, m_user_profiles = None\<rparr>]),
          message_count := Suc (message_count (ss w))\<rparr>\<rparr>, True)"
  using assms strip_nonempty [OF assms(4)]
  by (simp add: handle_send_def send_direct_message_def Let_def)

text \<open>
  C10: the id of a message posted to a demo identity is \<open>demo-msg-\<close> followed by the
  whole second of the clock, whoever posts and whatever the content. Two posts made in
  the same second get the same id, also when posters and demo identities differ; and
  two posts one user makes to one demo identity within a second leave that conversation
  with a repeated id.
\<close>

theorem demo_ids_collide:
  assumes "d1 \<in> set demo_user_ids" and "d2 \<in> set demo_user_ids"
    and "py_int (now w1) = py_int (now w2)"
  shows "map_option m_id (fst (send_direct_message w1 u1 d1 c1)) =
           Some (Str (''demo-msg-'' @ str_int (py_int (now w1)))) \<and>
         map_option m_id (fst (send_direct_message w2 u2 d2 c2)) =
           map_option m_id (fst (send_direct_message w1 u1 d1 c1)) \<and>
         (view_mode (ss w1) = ''dm'' \<and> current_dm_user (ss w1) = Some dm_user \<and>
          u_id dm_user = d1 \<and> strip c1 \<noteq> [] \<and> strip c2 \<noteq> [] \<and> py_int t = py_int (now w1) \<longrightarrow>
          (case demo_messages
                  (ss (fst (handle_send ((fst (handle_send w1 u1 True c1))\<lparr>now := t\<rparr>) u1 True c2)))
                  (u1 @ ''_'' @ d1) of
             None \<Rightarrow> False
           | Some l \<Rightarrow> \<not> distinct (map m_id l)))"
proof (intro conjI impI)
  show "map_option m_id (fst (send_direct_message w1 u1 d1 c1)) =
          Some (Str (''demo-msg-'' @ str_int (py_int (now w1))))"
    using assms(1) by (rule send_demo_id)
  show "map_option m_id (fst (send_direct_message w2 u2 d2 c2)) =
          map_option m_id (fst (send_direct_message w1 u1 d1 c1))"
    using assms by (simp add: send_demo_id)
next
  assume h: "view_mode (ss w1) = ''dm'' \<and> current_dm_user (ss w1) = Some dm_user \<and>
          u_id dm_user = d1 \<and> strip c1 \<noteq> [] \<and> strip c2 \<noteq> [] \<and> py_int t = py_int (now w1)"
  have d: "u_id dm_user \<in> set demo_user_ids"
    using h assms(1) by simp
  have first: "handle_send w1 u1 True c1 =
    (w1\<lparr>ss := (ss w1)\<lparr>demo_messages := (demo_messages (ss w1))(u1 @ ''_'' @ u_id dm_user \<mapsto>
          (case demo_messages (ss w1) (u1 @ ''_'' @ u_id dm_user) of None \<Rightarrow> [] | Some l \<Rightarrow> l) @
          [\<lparr>m_id = Str (''demo-msg-'' @ str_int (py_int (now w1))), m_user_id = u1,
            m_channel_id = None, m_recipient_id = Some (u_id dm_user),
            m_content = strip c1, m_message_type = ''text'',
            m_created_at = now w1, m_user_profiles = None\<rparr>]),
          message_count := Suc (message_count (ss w1))\<rparr>\<rparr>, True)"
    using h d by (intro handle_send_demo) auto
  show "(case demo_messages
                (ss (fst (handle_send ((fst (handle_send w1 u1 True c1))\<lparr>now := t\<rparr>) u1 True c2)))
                (u1 @ ''_'' @ d1) of
           None \<Rightarrow> False
         | Some l \<Rightarrow> \<not> distinct (map m_id l))"
    unfolding first using h d
    by (subst handle_send_demo [where d = dm_user]) auto
qed

theorem demo_ids_collide_witness:
  "alex \<in> set demo_user_ids \<and> sarah \<in> set demo_user_ids \<and>
   py_int (now (dm_world (2001 / 2) alex_user)) = py_int (now (initial_world (4003 / 4))) \<and>
   map_option m_id (fst (send_direct_message (dm_world (2001 / 2) alex_user) ''u1'' alex ''hi'')) =
     Some (Str ''demo-msg-1000'') \<and>
   map_option m_id (fst (send_direct_message (initial_world (4003 / 4)) ''u2'' sarah ''yo'')) =
     Some (Str ''demo-msg-1000'') \<and>
   map_option (map m_id)
     (demo_messages
        (ss (fst (handle_send
                   ((fst (handle_send (dm_world (2001 / 2) alex_user) ''u1'' True ''hi''))
                      \<lparr>now := 4003 / 4\<rparr>) ''u1'' True ''yo'')))
        (''u1'' @ ''_'' @ alex)) =
     Some [Str ''demo-msg-1000'', Str ''demo-msg-1000'']"
proof -
  have a: "alex \<in> set demo_user_ids" and s: "sarah \<in> set demo_user_ids"
    by (simp_all add: alex_def sarah_def demo_user_ids_def)
  have f: "py_int (now (dm_world (2001 / 2) alex_user)) = py_int (now (initial_world (4003 / 4)))"
    by (simp add: dm_world_def initial_world_def py_int_def)
  have n: "str_int 1000 = ''1000''"
    by (simp add: str_int_def str_nat.simps)
  have v: "view_mode (ss (dm_world (2001 / 2) alex_user)) = ''dm'' \<and>
           current_dm_user (ss (dm_world (2001 / 2) alex_user)) = Some alex_user \<and>
           u_id alex_user = alex \<and> strip ''hi'' \<noteq> [] \<and> strip ''yo'' \<noteq> []"
    by (simp add: dm_world_def initial_world_def alex_user_def alex_def strip_def isspace_def)
  have k: "py_int (now (dm_world (2001 / 2) alex_user)) = 1000" and k2: "py_int (4003 / 4) = 1000"
    by (simp_all add: dm_world_def initial_world_def py_int_def)
  have h1: "handle_send (dm_world (2001 / 2) alex_user) ''u1'' True ''hi'' =
    ((dm_world (2001 / 2) alex_user)\<lparr>ss := (ss (dm_world (2001 / 2) alex_user))\<lparr>demo_messages :=
          (demo_messages (ss (dm_world (2001 / 2) alex_user)))(''u1'' @ ''_'' @ u_id alex_user \<mapsto>
          (case demo_messages (ss (dm_world (2001 / 2) alex_user)) (''u1'' @ ''_'' @ u_id alex_user) of
             None \<Rightarrow> [] | Some l \<Rightarrow> l) @
          [\<lparr>m_id = Str (''demo-msg-'' @ str_int (py_int (now (dm_world (2001 / 2) alex_user)))),
            m_user_id = ''u1'', m_channel_id = None, m_recipient_id = Some (u_id alex_user),
            m_content = strip ''hi'', m_message_type = ''text'',
            m_created_at = now (dm_world (2001 / 2) alex_user), m_user_profiles = None\<rparr>]),
          message_count := Suc (message_count (ss (dm_world (2001 / 2) alex_user)))\<rparr>\<rparr>, True)"
    using v a by (intro handle_send_demo) auto
  show ?thesis
    using demo_ids_collide [OF a s f, of "''u1''" "''hi''" "''u2''" "''yo''" alex_user "4003 / 4"] a s f v k k2 n
    unfolding h1
    apply (subst handle_send_demo [where d = alex_user])
    apply (auto simp add: send_demo_id dm_world_def initial_world_def alex_user_def alex_def py_int_def)
    done
qed

section \<open>Blank content\<close>

text \<open>
  C1, as stated, fails: neither writer checks its content. Called with three spaces,
  which strip to the empty string, \<open>send_direct_message\<close> to a demo identity returns a
  message and reports nothing, and \<open>send_message\<close> returns the row it stored, whose
  content is empty.
\<close>

theorem blank_content_is_sent:
  "strip ''   '' = [] \<and>
   fst (send_direct_message (initial_world 1000) ''u1'' alex ''   '') \<noteq> None \<and>
   shown (snd (send_direct_message (initial_world 1000) ''u1'' alex ''   '')) = [] \<and>
   fst (send_message (initial_world 1000) ''u1'' 1 ''   '') \<noteq> None \<and>
   map m_content (messages (db (snd (send_message (initial_world 1000) ''u1'' 1 ''   '')))) = [[]]"
  by (simp add: send_direct_message_def send_message_def initial_world_def insert_message_def
      execute_def empty_store_def strip_def isspace_def st_error_def Let_def alex_def
      demo_user_ids_def)

text \<open>
  C1, amended: the check is made by the caller. For every input that is empty or
  strips to the empty string, the send-button handler calls neither writer: the store,
  the demo conversations and the errors shown are all unchanged, and no rerun is asked
  for.
\<close>

theorem handle_send_blank_is_noop:
  "strip message_input = [] \<Longrightarrow>
   handle_send w user_id send_button message_input = (w, False)"
  by (simp add: handle_send_def)

theorem handle_send_blank_is_noop_witness:
  "strip [CHR '' '', CHR 0x09] = [] \<and>
   handle_send (channel_world 1000 general) ''u1'' True [CHR '' '', CHR 0x09] =
     (channel_world 1000 general, False) \<and>
   snd (handle_send (channel_world 1000 general) ''u1'' True ''hello'') \<and>
   map m_content
     (messages (db (fst (handle_send (channel_world 1000 general) ''u1'' True ''hello'')))) =
     [''hello''] \<and>
   handle_send (dm_world 1000 alex_user) ''u1'' True [CHR '' '', CHR 0x09] =
     (dm_world 1000 alex_user, False) \<and>
   map_option (map m_content)
     (demo_messages (ss (fst (handle_send (dm_world 1000 alex_user) ''u1'' True ''hello'')))
        (''u1'' @ ''_'' @ alex)) = Some [''hello'']"
proof -
  have b: "strip [CHR '' '', CHR 0x09] = []" and s: "strip ''hello'' = ''hello''"
    by (simp_all add: strip_def isspace_def)
  define w where "w = channel_world 1000 general"
  have vm: "view_mode (ss w) = ''channel''" and cc: "current_channel (ss w) = Some general"
    and f: "faults (db w) (calls (db w)) = None" and ms: "messages (db w) = []"
    by (simp_all add: w_def channel_world_def initial_world_def empty_store_def)
  have h: "snd (handle_send w ''u1'' True ''hello'') \<and>
     map m_content (messages (db (fst (handle_send w ''u1'' True ''hello'')))) = [''hello'']"
    by (simp add: handle_send_def vm cc send_message_ok [OF f] s ms)
  define v where "v = dm_world 1000 alex_user"
  have vd: "view_mode (ss v) = ''dm''" and cd: "current_dm_user (ss v) = Some alex_user"
    and ad: "u_id alex_user \<in> set demo_user_ids" and ua: "u_id alex_user = alex"
    and e: "demo_messages (ss v) (''u1'' @ ''_'' @ alex) = None"
    by (simp_all add: v_def dm_world_def initial_world_def alex_user_def alex_def demo_user_ids_def)
  have sn: "strip ''hello'' \<noteq> []"
    by (simp add: s)
  have g: "map_option (map m_content)
     (demo_messages (ss (fst (handle_send v ''u1'' True ''hello''))) (''u1'' @ ''_'' @ alex)) =
     Some [''hello'']"
    using e by (simp add: handle_send_demo [OF vd cd ad sn] ua s)
  show ?thesis
    using handle_send_blank_is_noop [OF b, of w "''u1''" True]
      handle_send_blank_is_noop [OF b, of v "''u1''" True] b h g
    unfolding w_def v_def by blast
qed

section \<open>Reads when the store fails\<close>

text \<open>
  C7, as stated, fails for the user listing: when its query raises, \<open>get_all_users\<close>
  returns the two demo users, not an empty list.
\<close>

theorem users_fallback_not_empty:
  "faults (db down_world) (calls (db down_world)) \<noteq> None \<and>
   fst (get_all_users down_world (Some ''u1'')) = [alex_user, sarah_user]"
  by (simp add: get_all_users_def select_profiles_def execute_def down_world_def initial_world_def
       empty_store_def demo_users_def Let_def)

text \<open>
  C7, amended: when the query of a read raises, the channel message list, the direct
  message list with a counterpart that is no demo identity, the reaction list and the
  membership listing are empty, and the user listing is the two demo users, whatever
  user was to be excluded. No read passes the failure on.
\<close>

theorem reads_degrade:
  assumes "faults (db w) (calls (db w)) = Some e"
  shows "fst (get_channel_messages w channel_id limit) = [] \<and>
         (other_user_id \<notin> set demo_user_ids \<longrightarrow>
            fst (get_direct_messages w user_id other_user_id limit) = []) \<and>
         fst (get_message_reactions w message_id) = [] \<and>
         fst (get_user_channels w user_id) = [] \<and>
         fst (get_all_users w exclude_user_id) = demo_users"
  using assms
  by (simp add: get_channel_messages_def select_channel_messages_def
      get_direct_messages_def select_direct_messages_def
      get_message_reactions_def select_reactions_def
      get_user_channels_def select_user_channels_def
      get_all_users_def select_profiles_def execute_fault Let_def)

theorem reads_degrade_witness:
  "faults (db down_world) (calls (db down_world)) = Some ''connection refused'' \<and>
   ''u2'' \<notin> set demo_user_ids \<and>
   get_channel_messages down_world 1 default_limit =
     ([], down_world\<lparr>db := (db down_world)\<lparr>calls := 1\<rparr>,
                     shown := [''Error fetching messages: connection refused'']\<rparr>) \<and>
   fst (get_direct_messages down_world ''u1'' ''u2'' default_limit) = [] \<and>
   fst (get_message_reactions down_world (Key 0)) = [] \<and>
   fst (get_user_channels down_world ''u1'') = [] \<and>
   fst (get_all_users down_world None) = [alex_user, sarah_user]"
proof -
  have f: "faults (db down_world) (calls (db down_world)) = Some ''connection refused''"
    by (simp add: down_world_def initial_world_def empty_store_def)
  have n: "''u2'' \<notin> set demo_user_ids" by (simp add: demo_user_ids_def)
  have g: "get_channel_messages down_world 1 default_limit =
     ([], down_world\<lparr>db := (db down_world)\<lparr>calls := 1\<rparr>,
                     shown := [''Error fetching messages: connection refused'']\<rparr>)"
    by (simp add: get_channel_messages_def select_channel_messages_def execute_fault [OF f] st_error_def)
       (simp add: down_world_def initial_world_def empty_store_def)
  show ?thesis
    using reads_degrade [OF f, where channel_id = 1 and limit = default_limit and other_user_id = "''u2''"
        and user_id = "''u1''" and message_id = "Key 0" and exclude_user_id = None] f n g
    by (simp add: demo_users_def)
qed

section \<open>Joining a channel\<close>

lemma join_new:
  assumes "faults (db w) (calls (db w)) = None"
    and "\<not> (\<exists>m \<in> set (channel_members (db w)). same_member u c m)"
  shows "join_channel w u c =
    (True, w\<lparr>db := (db w)\<lparr>calls := Suc (calls (db w)),
                channel_members := channel_members (db w) @ [\<lparr>cm_user_id = u, cm_channel_id = c\<rparr>]\<rparr>\<rparr>)"
  using assms by (simp add: join_channel_def insert_member_def execute_ok Let_def)

lemma join_again:
  assumes "faults (db w) (calls (db w)) = None"
    and "\<exists>m \<in> set (channel_members (db w)). same_member u c m"
  shows "join_channel w u c = (False, w\<lparr>db := (db w)\<lparr>calls := Suc (calls (db w))\<rparr>\<rparr>)"
  using assms duplicate_key_recognised
  by (simp add: join_channel_def insert_member_def execute_ok Let_def)

text \<open>
  C8, as stated, fails on how a repeated join is answered: the first join of a channel
  returns \<open>True\<close>, the second returns \<open>False\<close>, the value a failed join returns. The
  membership row is not repeated and nothing is shown.
\<close>

theorem join_again_returns_False:
  "fst (join_channel (initial_world 1000) ''u1'' 1) = True \<and>
   join_channel (snd (join_channel (initial_world 1000) ''u1'' 1)) ''u1'' 1 =
     (False, (initial_world 1000)\<lparr>db := empty_store\<lparr>calls := 2,
          channel_members := [\<lparr>cm_user_id = ''u1'', cm_channel_id = 1\<rparr>]\<rparr>\<rparr>)"
proof -
  have 1: "join_channel (initial_world 1000) ''u1'' 1 = (True, (initial_world 1000)\<lparr>db := empty_store\<lparr>calls := 1,
          channel_members := [\<lparr>cm_user_id = ''u1'', cm_channel_id = 1\<rparr>]\<rparr>\<rparr>)"
    by (subst join_new) (simp_all add: initial_world_def empty_store_def)
  show ?thesis unfolding 1
    by (subst join_again) (simp_all add: initial_world_def empty_store_def same_member_def)
qed

text \<open>
  C8, amended: when the store answers and holds at most one membership row for the user
  and the channel, then after \<open>join_channel\<close> it holds exactly one, and no error is
  shown. The call returns \<open>True\<close> only if the user was not a member before; joining a
  channel the user already belongs to leaves the membership table as it was and
  returns \<open>False\<close>.
\<close>

theorem join_twice:
  assumes "faults (db w) (calls (db w)) = None"
    and "length (filter (same_member u c) (channel_members (db w))) \<le> 1"
  shows "length (filter (same_member u c) (channel_members (db (snd (join_channel w u c))))) = 1 \<and>
         shown (snd (join_channel w u c)) = shown w \<and>
         (fst (join_channel w u c) \<longleftrightarrow> \<not> (\<exists>m \<in> set (channel_members (db w)). same_member u c m)) \<and>
         ((\<exists>m \<in> set (channel_members (db w)). same_member u c m) \<longrightarrow>
            channel_members (db (snd (join_channel w u c))) = channel_members (db w))"
proof (cases "\<exists>m \<in> set (channel_members (db w)). same_member u c m")
  case True
  then have "filter (same_member u c) (channel_members (db w)) \<noteq> []"
    by (simp add: filter_empty_conv)
  then have "length (filter (same_member u c) (channel_members (db w))) = 1"
    using assms(2) by (cases "filter (same_member u c) (channel_members (db w))") auto
  then show ?thesis using True by (simp add: join_again [OF assms(1) True])
next
  case False
  then have "filter (same_member u c) (channel_members (db w)) = []"
    by (simp add: filter_empty_conv)
  then show ?thesis using False
    by (simp add: join_new [OF assms(1) False] same_member_def)
qed

theorem join_twice_witness:
  "faults (db (snd (join_channel (initial_world 1000) ''u1'' 1)))
      (calls (db (snd (join_channel (initial_world 1000) ''u1'' 1)))) = None \<and>
   length (filter (same_member ''u1'' 1)
      (channel_members (db (snd (join_channel (initial_world 1000) ''u1'' 1))))) \<le> 1 \<and>
   channel_members (db (snd (join_channel (snd (join_channel (initial_world 1000) ''u1'' 1)) ''u1'' 1))) =
     [\<lparr>cm_user_id = ''u1'', cm_channel_id = 1\<rparr>] \<and>
   shown (snd (join_channel (snd (join_channel (initial_world 1000) ''u1'' 1)) ''u1'' 1)) = [] \<and>
   \<not> fst (join_channel (snd (join_channel (initial_world 1000) ''u1'' 1)) ''u1'' 1)"
proof -
  have first: "join_channel (initial_world 1000) ''u1'' 1 =
     (True, (initial_world 1000)\<lparr>db := empty_store\<lparr>calls := 1,
          channel_members := [\<lparr>cm_user_id = ''u1'', cm_channel_id = 1\<rparr>]\<rparr>\<rparr>)"
    by (subst join_new) (simp_all add: initial_world_def empty_store_def)
  have f: "faults (db (snd (join_channel (initial_world 1000) ''u1'' 1)))
      (calls (db (snd (join_channel (initial_world 1000) ''u1'' 1)))) = None"
    unfolding first by (simp add: empty_store_def)
  have l: "length (filter (same_member ''u1'' 1)
      (channel_members (db (snd (join_channel (initial_world 1000) ''u1'' 1))))) \<le> 1"
    unfolding first by (simp add: empty_store_def)
  have m: "channel_members (db (snd (join_channel (initial_world 1000) ''u1'' 1))) =
      [\<lparr>cm_user_id = ''u1'', cm_channel_id = 1\<rparr>]"
    unfolding first by simp
  have sh: "shown (snd (join_channel (initial_world 1000) ''u1'' 1)) = []"
    unfolding first by (simp add: initial_world_def)
  show ?thesis
    using join_twice [OF f l] f l m sh
    by (simp add: same_member_def)
qed

section \<open>Adding and removing reactions\<close>

lemma add_new:
  assumes "faults (db w) (calls (db w)) = None"
    and "\<not> (\<exists>r \<in> set (message_reactions (db w)). same_reaction m u e r)"
  shows "add_reaction w m u e =
    (Some \<lparr>r_message_id = m, r_user_id = u, r_emoji = e, r_user_profiles = None\<rparr>,
     w\<lparr>db := (db w)\<lparr>calls := Suc (calls (db w)),
         message_reactions := message_reactions (db w) @
           [\<lparr>r_message_id = m, r_user_id = u, r_emoji = e, r_user_profiles = None\<rparr>]\<rparr>\<rparr>)"
  using assms by (simp add: add_reaction_def insert_reaction_def execute_ok Let_def)

lemma add_again:
  assumes "faults (db w) (calls (db w)) = None"
    and "\<exists>r \<in> set (message_reactions (db w)). same_reaction m u e r"
  shows "add_reaction w m u e = (None, w\<lparr>db := (db w)\<lparr>calls := Suc (calls (db w))\<rparr>\<rparr>)"
  using assms by (simp add: add_reaction_def insert_reaction_def execute_ok Let_def)

lemma add_shown: "shown (snd (add_reaction w m u e)) = shown w"
  by (simp add: add_reaction_def split: prod.splits sum.splits)

lemma remove_shown: "shown (snd (remove_reaction w m u e)) = shown w"
  by (simp add: remove_reaction_def split: prod.splits sum.splits)

lemma remove_absent:
  assumes "faults (db w) (calls (db w)) = None"
    and "\<not> (\<exists>r \<in> set (message_reactions (db w)). same_reaction m u e r)"
  shows "remove_reaction w m u e = (True, w\<lparr>db := (db w)\<lparr>calls := Suc (calls (db w))\<rparr>\<rparr>)"
proof -
  have "filter (\<lambda>r. \<not> same_reaction m u e r) (message_reactions (db w)) = message_reactions (db w)"
    using assms(2) by (simp add: filter_id_conv)
  then show ?thesis using assms(1)
    by (simp add: remove_reaction_def delete_reaction_def execute_ok Let_def)
qed

text \<open>
  C3: when the store answers the two calls and holds at most one reaction of the user
  with the emoji on the message, adding the reaction twice leaves exactly one: the
  second call changes no row, returns \<open>None\<close> and shows no error. Removing a reaction
  that is not there returns \<open>True\<close>, changes no row and shows no error.
\<close>

theorem reactions_idempotent:
  assumes "faults (db w) (calls (db w)) = None"
    and "faults (db w) (Suc (calls (db w))) = None"
    and "length (filter (same_reaction m u e) (message_reactions (db w))) \<le> 1"
  shows "length (filter (same_reaction m u e)
           (message_reactions (db (snd (add_reaction (snd (add_reaction w m u e)) m u e))))) = 1 \<and>
         fst (add_reaction (snd (add_reaction w m u e)) m u e) = None \<and>
         message_reactions (db (snd (add_reaction (snd (add_reaction w m u e)) m u e))) =
           message_reactions (db (snd (add_reaction w m u e))) \<and>
         shown (snd (add_reaction (snd (add_reaction w m u e)) m u e)) = shown w \<and>
         (length (filter (same_reaction m u e) (message_reactions (db w))) = 0 \<longrightarrow>
            fst (remove_reaction w m u e) = True \<and>
            message_reactions (db (snd (remove_reaction w m u e))) = message_reactions (db w) \<and>
            shown (snd (remove_reaction w m u e)) = shown w)"
proof -
  let ?w1 = "snd (add_reaction w m u e)"
  have one: "length (filter (same_reaction m u e) (message_reactions (db ?w1))) = 1
     \<and> faults (db ?w1) (calls (db ?w1)) = None"
  proof (cases "\<exists>r \<in> set (message_reactions (db w)). same_reaction m u e r")
    case True
    then have "filter (same_reaction m u e) (message_reactions (db w)) \<noteq> []"
      by (simp add: filter_empty_conv)
    then have "length (filter (same_reaction m u e) (message_reactions (db w))) = 1"
      using assms(3) by (cases "filter (same_reaction m u e) (message_reactions (db w))") auto
    then show ?thesis using assms(2) by (simp add: add_again [OF assms(1) True])
  next
    case False
    then have "filter (same_reaction m u e) (message_reactions (db w)) = []"
      by (simp add: filter_empty_conv)
    then show ?thesis using assms(2)
      by (simp add: add_new [OF assms(1) False] same_reaction_def)
  qed
  then have ex: "\<exists>r \<in> set (message_reactions (db ?w1)). same_reaction m u e r"
    by (metis (no_types, lifting) One_nat_def filter_empty_conv list.size(3) n_not_Suc_n)
  have second: "add_reaction ?w1 m u e = (None, ?w1\<lparr>db := (db ?w1)\<lparr>calls := Suc (calls (db ?w1))\<rparr>\<rparr>)"
    using one ex by (intro add_again) auto
  have rem: "fst (remove_reaction w m u e) = True \<and>
            message_reactions (db (snd (remove_reaction w m u e))) = message_reactions (db w) \<and>
            shown (snd (remove_reaction w m u e)) = shown w"
    if "length (filter (same_reaction m u e) (message_reactions (db w))) = 0"
  proof -
    have "\<not> (\<exists>r \<in> set (message_reactions (db w)). same_reaction m u e r)"
      using that by (simp add: filter_empty_conv)
    then show ?thesis by (simp add: remove_absent [OF assms(1)])
  qed
  show ?thesis
    using one rem by (simp add: second add_shown)
qed

theorem reactions_idempotent_witness:
  "faults (db (initial_world 1000)) (calls (db (initial_world 1000))) = None \<and>
   faults (db (initial_world 1000)) (Suc (calls (db (initial_world 1000)))) = None \<and>
   length (filter (same_reaction (Key 0) ''u1'' ''ok'') (message_reactions (db (initial_world 1000)))) = 0 \<and>
   message_reactions
     (db (snd (add_reaction (snd (add_reaction (initial_world 1000) (Key 0) ''u1'' ''ok''))
                 (Key 0) ''u1'' ''ok''))) =
     [\<lparr>r_message_id = Key 0, r_user_id = ''u1'', r_emoji = ''ok'', r_user_profiles = None\<rparr>] \<and>
   shown (snd (add_reaction (snd (add_reaction (initial_world 1000) (Key 0) ''u1'' ''ok''))
                 (Key 0) ''u1'' ''ok'')) = [] \<and>
   fst (remove_reaction (initial_world 1000) (Key 0) ''u1'' ''ok'') = True \<and>
   message_reactions (db (snd (remove_reaction (initial_world 1000) (Key 0) ''u1'' ''ok''))) = []"
proof -
  have f0: "faults (db (initial_world 1000)) (calls (db (initial_world 1000))) = None"
    and f1: "faults (db (initial_world 1000)) (Suc (calls (db (initial_world 1000)))) = None"
    and l: "length (filter (same_reaction (Key 0) ''u1'' ''ok'')
               (message_reactions (db (initial_world 1000)))) \<le> 1"
    and z: "message_reactions (db (initial_world 1000)) = []"
    and sh: "shown (initial_world 1000) = []"
    by (simp_all add: initial_world_def empty_store_def)
  have first: "message_reactions (db (snd (add_reaction (initial_world 1000) (Key 0) ''u1'' ''ok''))) =
     [\<lparr>r_message_id = Key 0, r_user_id = ''u1'', r_emoji = ''ok'', r_user_profiles = None\<rparr>]"
    by (subst add_new) (simp_all add: initial_world_def empty_store_def)
  show ?thesis
    using reactions_idempotent [OF f0 f1 l] f0 f1 z sh first
    by simp
qed

section \<open>Profiles attached to rows\<close>

lemma lookup_profile_eq:
  "lookup_profile s uid = (profile_at s (calls s) uid, s\<lparr>calls := Suc (calls s)\<rparr>)"
  by (simp add: lookup_profile_def select_profile_def execute_def profile_at_def Let_def
      split: option.splits list.splits)

lemma profile_at_calls [simp]: "profile_at (s\<lparr>calls := k\<rparr>) n uid = profile_at s n uid"
  by (simp add: profile_at_def split: option.splits)

lemma attach_profiles_store: "snd (attach_profiles s ms) = s\<lparr>calls := calls s + length ms\<rparr>"
  by (induction ms arbitrary: s) (simp_all add: lookup_profile_eq case_prod_beta)

lemma attach_profiles_length: "length (fst (attach_profiles s ms)) = length ms"
  by (induction ms arbitrary: s) (simp_all add: lookup_profile_eq case_prod_beta)

lemma attach_profiles_nth:
  "i < length ms \<Longrightarrow>
   fst (attach_profiles s ms) ! i =
     (ms ! i)\<lparr>m_user_profiles := Some (profile_at s (calls s + i) (m_user_id (ms ! i)))\<rparr>"
proof (induction ms arbitrary: s i)
  case Nil
  then show ?case by simp
next
  case (Cons m ms)
  show ?case
  proof (cases i)
    case 0
    then show ?thesis by (simp add: lookup_profile_eq case_prod_beta)
  next
    case (Suc j)
    then have "j < length ms" using Cons.prems by simp
    from Cons.IH [OF this, of "s\<lparr>calls := Suc (calls s)\<rparr>"] Suc
    show ?thesis by (simp add: lookup_profile_eq case_prod_beta)
  qed
qed

lemma attach_reactors_store: "snd (attach_reactors s rs) = s\<lparr>calls := calls s + length rs\<rparr>"
  by (induction rs arbitrary: s) (simp_all add: lookup_profile_eq case_prod_beta)

lemma attach_reactors_length: "length (fst (attach_reactors s rs)) = length rs"
  by (induction rs arbitrary: s) (simp_all add: lookup_profile_eq case_prod_beta)

lemma attach_reactors_nth:
  "i < length rs \<Longrightarrow>
   fst (attach_reactors s rs) ! i =
     (rs ! i)\<lparr>r_user_profiles := Some (profile_at s (calls s + i) (r_user_id (rs ! i)))\<rparr>"
proof (induction rs arbitrary: s i)
  case Nil
  then show ?case by simp
next
  case (Cons r rs)
  show ?case
  proof (cases i)
    case 0
    then show ?thesis by (simp add: lookup_profile_eq case_prod_beta)
  next
    case (Suc j)
    then have "j < length rs" using Cons.prems by simp
    from Cons.IH [OF this, of "s\<lparr>calls := Suc (calls s)\<rparr>"] Suc
    show ?thesis by (simp add: lookup_profile_eq case_prod_beta)
  qed
qed

lemma get_channel_messages_ok:
  "faults (db w) (calls (db w)) = None \<Longrightarrow>
   get_channel_messages w c l =
     (fst (attach_profiles ((db w)\<lparr>calls := Suc (calls (db w))\<rparr>) (channel_rows (messages (db w)) c l)),
      w\<lparr>db := (db w)\<lparr>calls := Suc (calls (db w)) + length (channel_rows (messages (db w)) c l)\<rparr>\<rparr>)"
  using attach_profiles_store [of "(db w)\<lparr>calls := Suc (calls (db w))\<rparr>" "channel_rows (messages (db w)) c l"]
  by (simp add: get_channel_messages_def select_channel_messages_def execute_ok case_prod_beta prod_eq_iff)

lemma get_direct_messages_ok:
  "faults (db w) (calls (db w)) = None \<Longrightarrow> other \<notin> set demo_user_ids \<Longrightarrow>
   get_direct_messages w u other l =
     (fst (attach_profiles ((db w)\<lparr>calls := Suc (calls (db w))\<rparr>) (dm_rows (messages (db w)) u other l)),
      w\<lparr>db := (db w)\<lparr>calls := Suc (calls (db w)) + length (dm_rows (messages (db w)) u other l)\<rparr>\<rparr>)"
  using attach_profiles_store [of "(db w)\<lparr>calls := Suc (calls (db w))\<rparr>" "dm_rows (messages (db w)) u other l"]
  by (simp add: get_direct_messages_def select_direct_messages_def execute_ok case_prod_beta prod_eq_iff)

lemma get_message_reactions_ok:
  "faults (db w) (calls (db w)) = None \<Longrightarrow>
   get_message_reactions w m =
     (fst (attach_reactors ((db w)\<lparr>calls := Suc (calls (db w))\<rparr>) (reaction_rows (message_reactions (db w)) m)),
      w\<lparr>db := (db w)\<lparr>calls := Suc (calls (db w)) + length (reaction_rows (message_reactions (db w)) m)\<rparr>\<rparr>)"
  using attach_reactors_store [of "(db w)\<lparr>calls := Suc (calls (db w))\<rparr>" "reaction_rows (message_reactions (db w)) m"]
  by (simp add: get_message_reactions_def select_reactions_def execute_ok case_prod_beta prod_eq_iff)

lemma profile_at_unknown:
  "faults s n \<noteq> None \<or> \<not> (\<exists>u \<in> set (user_profiles s). u_id u = uid) \<Longrightarrow>
   profile_at s n uid = unknown_profile"
  by (auto simp add: profile_at_def filter_empty_conv split: option.splits list.splits)

text \<open>
  C6: when the query of a read is answered, \<open>get_channel_messages\<close>,
  \<open>get_direct_messages\<close> with a counterpart that is no demo identity, and
  \<open>get_message_reactions\<close> return one entry per selected row and show no error; and
  every row whose author has no profile row, or whose profile lookup raises, comes
  back carrying the placeholder \<open>Unknown User\<close> / \<open>unknown\<close>.
\<close>

theorem missing_profile_placeholder:
  assumes "faults (db w) (calls (db w)) = None"
  shows
   "(let rows = channel_rows (messages (db w)) c l; res = get_channel_messages w c l
     in length (fst res) = length rows \<and> shown (snd res) = shown w \<and>
        (\<forall>i < length rows.
           (faults (db w) (Suc (calls (db w)) + i) \<noteq> None \<or>
            \<not> (\<exists>u \<in> set (user_profiles (db w)). u_id u = m_user_id (rows ! i))) \<longrightarrow>
           fst res ! i = (rows ! i)\<lparr>m_user_profiles := Some unknown_profile\<rparr>)) \<and>
    (other \<notin> set demo_user_ids \<longrightarrow>
     (let rows = dm_rows (messages (db w)) u other l; res = get_direct_messages w u other l
      in length (fst res) = length rows \<and> shown (snd res) = shown w \<and>
        (\<forall>i < length rows.
           (faults (db w) (Suc (calls (db w)) + i) \<noteq> None \<or>
            \<not> (\<exists>u \<in> set (user_profiles (db w)). u_id u = m_user_id (rows ! i))) \<longrightarrow>
           fst res ! i = (rows ! i)\<lparr>m_user_profiles := Some unknown_profile\<rparr>))) \<and>
    (let rows = reaction_rows (message_reactions (db w)) m; res = get_message_reactions w m
     in length (fst res) = length rows \<and> shown (snd res) = shown w \<and>
        (\<forall>i < length rows.
           (faults (db w) (Suc (calls (db w)) + i) \<noteq> None \<or>
            \<not> (\<exists>u \<in> set (user_profiles (db w)). u_id u = r_user_id (rows ! i))) \<longrightarrow>
           fst res ! i = (rows ! i)\<lparr>r_user_profiles := Some unknown_profile\<rparr>))"
proof (intro conjI impI)
  show "let rows = channel_rows (messages (db w)) c l; res = get_channel_messages w c l
     in length (fst res) = length rows \<and> shown (snd res) = shown w \<and>
        (\<forall>i < length rows.
           (faults (db w) (Suc (calls (db w)) + i) \<noteq> None \<or>
            \<not> (\<exists>u \<in> set (user_profiles (db w)). u_id u = m_user_id (rows ! i))) \<longrightarrow>
           fst res ! i = (rows ! i)\<lparr>m_user_profiles := Some unknown_profile\<rparr>)"
    by (simp add: get_channel_messages_ok [OF assms] attach_profiles_length attach_profiles_nth Let_def
         profile_at_unknown)
  show "let rows = reaction_rows (message_reactions (db w)) m; res = get_message_reactions w m
     in length (fst res) = length rows \<and> shown (snd res) = shown w \<and>
        (\<forall>i < length rows.
           (faults (db w) (Suc (calls (db w)) + i) \<noteq> None \<or>
            \<not> (\<exists>u \<in> set (user_profiles (db w)). u_id u = r_user_id (rows ! i))) \<longrightarrow>
           fst res ! i = (rows ! i)\<lparr>r_user_profiles := Some unknown_profile\<rparr>)"
    by (simp add: get_message_reactions_ok [OF assms] attach_reactors_length attach_reactors_nth Let_def
         profile_at_unknown)
next
  assume o: "other \<notin> set demo_user_ids"
  show "let rows = dm_rows (messages (db w)) u other l; res = get_direct_messages w u other l
      in length (fst res) = length rows \<and> shown (snd res) = shown w \<and>
        (\<forall>i < length rows.
           (faults (db w) (Suc (calls (db w)) + i) \<noteq> None \<or>
            \<not> (\<exists>u \<in> set (user_profiles (db w)). u_id u = m_user_id (rows ! i))) \<longrightarrow>
           fst res ! i = (rows ! i)\<lparr>m_user_profiles := Some unknown_profile\<rparr>)"
    by (simp add: get_direct_messages_ok [OF assms o] attach_profiles_length attach_profiles_nth Let_def
         profile_at_unknown)
qed

theorem missing_profile_placeholder_witness:
  "faults (db ghost_world) (calls (db ghost_world)) = None \<and>
   ''ghost'' \<notin> set demo_user_ids \<and>
   \<not> (\<exists>u \<in> set (user_profiles (db ghost_world)). u_id u = ''ghost'') \<and>
   fst (get_channel_messages ghost_world 1 default_limit) =
     [ghost_message\<lparr>m_user_profiles := Some (Names ''Unknown User'' ''unknown'')\<rparr>] \<and>
   fst (get_direct_messages ghost_world ''u1'' ''ghost'' default_limit) =
     [ghost_dm\<lparr>m_user_profiles := Some (Names ''Unknown User'' ''unknown'')\<rparr>] \<and>
   fst (get_message_reactions ghost_world (Key 0)) =
     [ghost_reaction\<lparr>r_user_profiles := Some (Names ''Unknown User'' ''unknown'')\<rparr>]"
proof -
  have f: "faults (db ghost_world) (calls (db ghost_world)) = None"
    by (simp add: ghost_world_def empty_store_def)
  have g: "''ghost'' \<notin> set demo_user_ids"
    by (simp add: demo_user_ids_def)
  have n: "\<not> (\<exists>u \<in> set (user_profiles (db ghost_world)). u_id u = ''ghost'')"
    by (simp add: ghost_world_def empty_store_def)
  have c: "channel_rows (messages (db ghost_world)) 1 default_limit = [ghost_message]"
    by (simp add: channel_rows_def ghost_world_def ghost_message_def ghost_dm_def default_limit_def)
  have d: "dm_rows (messages (db ghost_world)) ''u1'' ''ghost'' default_limit = [ghost_dm]"
    by (simp add: dm_rows_def ghost_world_def ghost_message_def ghost_dm_def default_limit_def)
  have r: "reaction_rows (message_reactions (db ghost_world)) (Key 0) = [ghost_reaction]"
    by (simp add: reaction_rows_def ghost_world_def ghost_reaction_def)
  have u: "user_profiles (db ghost_world) = []"
    by (simp add: ghost_world_def empty_store_def)
  have l: "\<And>xs y. length xs = Suc 0 \<Longrightarrow> xs ! 0 = y \<Longrightarrow> xs = [y]"
    by (metis length_0_conv length_Suc_conv nth_Cons_0)
  show ?thesis
    using missing_profile_placeholder [OF f, where c = 1 and l = default_limit and u = "''u1''"
        and other = "''ghost''" and m = "Key 0"] f g n
    by (auto simp add: c d r u Let_def unknown_profile_def intro!: l)
qed

section \<open>The refresh timer and the rerun after a write\<close>










section \<open>Order and size of the lists\<close>

lemma attach_profiles_created_at:
  "map m_created_at (fst (attach_profiles s ms)) = map m_created_at ms"
  by (induction ms arbitrary: s) (simp_all add: lookup_profile_eq case_prod_beta)

lemma attach_profiles_ids: "map m_id (fst (attach_profiles s ms)) = map m_id ms"
  by (induction ms arbitrary: s) (simp_all add: lookup_profile_eq case_prod_beta)

lemma channel_rows_sorted: "sorted (map m_created_at (channel_rows tbl c l))"
  unfolding channel_rows_def take_map [symmetric] by (simp add: sorted_sort_key del: take_map)

lemma channel_rows_length: "length (channel_rows tbl c l) \<le> l"
  by (simp add: channel_rows_def)

lemma dm_rows_sorted: "sorted (map m_created_at (dm_rows tbl u other l))"
  unfolding dm_rows_def take_map [symmetric] by (simp add: sorted_sort_key del: take_map)

lemma dm_rows_length: "length (dm_rows tbl u other l) \<le> l"
  by (simp add: dm_rows_def)

lemma get_channel_messages_fault:
  "faults (db w) (calls (db w)) = Some e \<Longrightarrow> fst (get_channel_messages w c l) = []"
  by (simp add: get_channel_messages_def select_channel_messages_def execute_fault)

lemma get_direct_messages_fault:
  "faults (db w) (calls (db w)) = Some e \<Longrightarrow> other \<notin> set demo_user_ids \<Longrightarrow>
   fst (get_direct_messages w u other l) = []"
  by (simp add: get_direct_messages_def select_direct_messages_def execute_fault)

lemma channel_list_sorted_capped:
  "sorted (map m_created_at (fst (get_channel_messages w c l))) \<and>
   length (fst (get_channel_messages w c l)) \<le> l"
proof (cases "faults (db w) (calls (db w))")
  case None
  then show ?thesis
    by (simp add: get_channel_messages_ok attach_profiles_created_at attach_profiles_length
        channel_rows_sorted channel_rows_length)
next
  case (Some e)
  then show ?thesis by (simp add: get_channel_messages_fault)
qed

lemma dm_list_sorted_capped:
  assumes "other \<notin> set demo_user_ids"
  shows "sorted (map m_created_at (fst (get_direct_messages w u other l))) \<and>
   length (fst (get_direct_messages w u other l)) \<le> l"
proof (cases "faults (db w) (calls (db w))")
  case None
  then show ?thesis using assms
    by (simp add: get_direct_messages_ok attach_profiles_created_at attach_profiles_length
        dm_rows_sorted dm_rows_length)
next
  case (Some e)
  then show ?thesis using assms by (simp add: get_direct_messages_fault)
qed

lemma demo_profile_idem: "demo_profile u (demo_profile u m) = demo_profile u m"
  by (simp add: demo_profile_def)

lemma demo_list_whole:
  assumes "other \<in> set demo_user_ids"
  shows "get_direct_messages w u other l =
     (map (demo_profile u)
        (case demo_messages (ss w) (u @ ''_'' @ other) of
           None \<Rightarrow> demo_init u other | Some held \<Rightarrow> held),
      w\<lparr>ss := (ss w)\<lparr>demo_messages := (demo_messages (ss w))(u @ ''_'' @ other \<mapsto>
            map (demo_profile u)
              (case demo_messages (ss w) (u @ ''_'' @ other) of
                 None \<Rightarrow> demo_init u other | Some held \<Rightarrow> held))\<rparr>\<rparr>)"
  using assms by (simp add: get_direct_messages_def Let_def)

lemma demo_list_repeat:
  assumes "other \<in> set demo_user_ids"
  shows "fst (get_direct_messages (snd (get_direct_messages w u other l)) u other l') =
         fst (get_direct_messages w u other l)"
  by (simp add: demo_list_whole [OF assms] demo_profile_idem)

lemma filter_key_single:
  "distinct (map f zs) \<Longrightarrow> k \<in> set zs \<Longrightarrow> filter (\<lambda>x. f k = f x) zs = [k]"
proof (induction zs)
  case Nil
  then show ?case by simp
next
  case (Cons z zs)
  have nz: "f z \<notin> f ` set zs" and dz: "distinct (map f zs)"
    using Cons.prems(1) by simp_all
  show ?case
  proof (cases "k = z")
    case True
    have "filter (\<lambda>x. f z = f x) zs = []"
      using nz by (auto simp add: filter_empty_conv)
    then show ?thesis using True by simp
  next
    case False
    then have k: "k \<in> set zs" using Cons.prems(2) by simp
    then have "f k \<in> f ` set zs" by simp
    then have "f k \<noteq> f z" using nz by auto
    then show ?thesis using Cons.IH [OF dz k] by simp
  qed
qed

lemma sort_key_same_rows:
  assumes "mset ys = mset xs" and "distinct (map f xs)"
  shows "sort_key f ys = sort_key f xs"
proof (rule properties_for_sort_key)
  show "mset (sort_key f xs) = mset ys"
    using assms(1) by simp
  show "sorted (map f (sort_key f xs))"
    by (rule sorted_sort_key)
next
  fix k assume k: "k \<in> set (sort_key f xs)"
  have "mset (map f ys) = mset (map f xs)"
    using assms(1) by simp
  from mset_eq_imp_distinct_iff [OF this] have dy: "distinct (map f ys)"
    using assms(2) by simp
  have "mset (map f (sort_key f xs)) = mset (map f xs)"
    by simp
  from mset_eq_imp_distinct_iff [OF this] have ds: "distinct (map f (sort_key f xs))"
    using assms(2) by simp
  have "set ys = set xs"
    using assms(1) by (rule mset_eq_setD)
  then have ky: "k \<in> set ys"
    using k by simp
  show "filter (\<lambda>x. f k = f x) (sort_key f xs) = filter (\<lambda>x. f k = f x) ys"
    by (simp only: filter_key_single [OF ds k] filter_key_single [OF dy ky])
qed

lemma channel_rows_same_rows:
  assumes "mset tbl2 = mset tbl"
    and "distinct (map m_created_at (filter (\<lambda>m. m_channel_id m = Some c) tbl))"
  shows "channel_rows tbl2 c l = channel_rows tbl c l"
proof -
  have "mset (filter (\<lambda>m. m_channel_id m = Some c) tbl2) =
        mset (filter (\<lambda>m. m_channel_id m = Some c) tbl)"
    using assms(1) by simp
  from sort_key_same_rows [OF this assms(2)] show ?thesis
    by (simp add: channel_rows_def)
qed

lemma dm_rows_same_rows:
  assumes "mset tbl2 = mset tbl"
    and "distinct (map m_created_at
           (filter (\<lambda>m. m_channel_id m = None \<and>
                     ((m_user_id m = u \<and> m_recipient_id m = Some other) \<or>
                      (m_user_id m = other \<and> m_recipient_id m = Some u))) tbl))"
  shows "dm_rows tbl2 u other l = dm_rows tbl u other l"
proof -
  have "mset (filter (\<lambda>m. m_channel_id m = None \<and>
                     ((m_user_id m = u \<and> m_recipient_id m = Some other) \<or>
                      (m_user_id m = other \<and> m_recipient_id m = Some u))) tbl2) =
        mset (filter (\<lambda>m. m_channel_id m = None \<and>
                     ((m_user_id m = u \<and> m_recipient_id m = Some other) \<or>
                      (m_user_id m = other \<and> m_recipient_id m = Some u))) tbl)"
    using assms(1) by simp
  from sort_key_same_rows [OF this assms(2)] show ?thesis
    by (simp add: dm_rows_def)
qed

lemma attach_profiles_same:
  assumes "user_profiles s2 = user_profiles s"
    and "\<forall>n. faults s n = None" and "\<forall>n. faults s2 n = None"
  shows "fst (attach_profiles s2 ms) = fst (attach_profiles s ms)"
proof (rule nth_equalityI)
  show "length (fst (attach_profiles s2 ms)) = length (fst (attach_profiles s ms))"
    by (simp add: attach_profiles_length)
next
  fix i assume "i < length (fst (attach_profiles s2 ms))"
  then have i: "i < length ms" by (simp add: attach_profiles_length)
  have "profile_at s2 (calls s2 + i) (m_user_id (ms ! i)) =
        profile_at s (calls s + i) (m_user_id (ms ! i))"
    using assms by (simp add: profile_at_def)
  then show "fst (attach_profiles s2 ms) ! i = fst (attach_profiles s ms) ! i"
    using i by (simp add: attach_profiles_nth)
qed

lemma channel_list_same_rows:
  assumes "\<forall>n. faults (db w) n = None" and "\<forall>n. faults (db w2) n = None"
    and "user_profiles (db w2) = user_profiles (db w)"
    and "mset (messages (db w2)) = mset (messages (db w))"
    and "distinct (map m_created_at (filter (\<lambda>m. m_channel_id m = Some c) (messages (db w))))"
  shows "fst (get_channel_messages w2 c l) = fst (get_channel_messages w c l)"
proof -
  have f: "faults (db w) (calls (db w)) = None" and f2: "faults (db w2) (calls (db w2)) = None"
    using assms(1,2) by simp_all
  have r: "channel_rows (messages (db w2)) c l = channel_rows (messages (db w)) c l"
    using assms(4,5) by (rule channel_rows_same_rows)
  have "fst (attach_profiles ((db w2)\<lparr>calls := Suc (calls (db w2))\<rparr>) (channel_rows (messages (db w)) c l)) =
        fst (attach_profiles ((db w)\<lparr>calls := Suc (calls (db w))\<rparr>) (channel_rows (messages (db w)) c l))"
    using assms(1,2,3) by (intro attach_profiles_same) simp_all
  then show ?thesis
    by (simp add: get_channel_messages_ok [OF f] get_channel_messages_ok [OF f2] r)
qed

lemma dm_list_same_rows:
  assumes "\<forall>n. faults (db w) n = None" and "\<forall>n. faults (db w2) n = None"
    and "user_profiles (db w2) = user_profiles (db w)"
    and "mset (messages (db w2)) = mset (messages (db w))"
    and "distinct (map m_created_at
           (filter (\<lambda>m. m_channel_id m = None \<and>
                     ((m_user_id m = u \<and> m_recipient_id m = Some other) \<or>
                      (m_user_id m = other \<and> m_recipient_id m = Some u))) (messages (db w))))"
    and o: "other \<notin> set demo_user_ids"
  shows "fst (get_direct_messages w2 u other l) = fst (get_direct_messages w u other l)"
proof -
  have f: "faults (db w) (calls (db w)) = None" and f2: "faults (db w2) (calls (db w2)) = None"
    using assms(1,2) by simp_all
  have r: "dm_rows (messages (db w2)) u other l = dm_rows (messages (db w)) u other l"
    using assms(4,5) by (rule dm_rows_same_rows)
  have "fst (attach_profiles ((db w2)\<lparr>calls := Suc (calls (db w2))\<rparr>) (dm_rows (messages (db w)) u other l)) =
        fst (attach_profiles ((db w)\<lparr>calls := Suc (calls (db w))\<rparr>) (dm_rows (messages (db w)) u other l))"
    using assms(1,2,3) by (intro attach_profiles_same) simp_all
  then show ?thesis
    by (simp add: get_direct_messages_ok [OF f o] get_direct_messages_ok [OF f2 o] r)
qed

lemma rearranged_rows:
  "mset (messages (db (rearranged w))) = mset (messages (db w)) \<and>
   user_profiles (db (rearranged w)) = user_profiles (db w) \<and>
   faults (db (rearranged w)) = faults (db w) \<and> calls (db (rearranged w)) = calls (db w)"
  by (simp add: rearranged_def)

lemma get_channel_messages_rows:
  "messages (db (snd (get_channel_messages w c l))) = messages (db w) \<and>
   user_profiles (db (snd (get_channel_messages w c l))) = user_profiles (db w) \<and>
   faults (db (snd (get_channel_messages w c l))) = faults (db w)"
proof (cases "faults (db w) (calls (db w))")
  case None
  then show ?thesis by (simp add: get_channel_messages_ok)
next
  case (Some e)
  then show ?thesis
    by (simp add: get_channel_messages_def select_channel_messages_def execute_fault st_error_def)
qed

lemma get_direct_messages_rows:
  "messages (db (snd (get_direct_messages w u d l))) = messages (db w) \<and>
   user_profiles (db (snd (get_direct_messages w u d l))) = user_profiles (db w) \<and>
   faults (db (snd (get_direct_messages w u d l))) = faults (db w)"
proof (cases "d \<in> set demo_user_ids")
  case True
  then show ?thesis by (simp add: demo_list_whole)
next
  case False
  show ?thesis
  proof (cases "faults (db w) (calls (db w))")
    case None
    then show ?thesis using False by (simp add: get_direct_messages_ok)
  next
    case (Some e)
    then show ?thesis using False
      by (simp add: get_direct_messages_def select_direct_messages_def execute_fault st_error_def)
  qed
qed

lemma demo_profile_created_at: "m_created_at (demo_profile u m) = m_created_at m"
  by (simp add: demo_profile_def)

lemma demo_profiles_created_at: "map m_created_at (map (demo_profile u) ms) = map m_created_at ms"
  by (simp add: demo_profile_created_at)

lemma demo_init_created_at: "map m_created_at (demo_init u d) = [1705312800, 1705312860]"
  by (simp add: demo_init_def)

lemma demo_list_sorted:
  assumes "d \<in> set demo_user_ids" and "demo_in_step w u d"
  shows "sorted (map m_created_at (fst (get_direct_messages w u d l)))"
proof (cases "demo_messages (ss w) (u @ ''_'' @ d)")
  case None
  then show ?thesis
    by (simp add: demo_list_whole [OF assms(1)] demo_profiles_created_at demo_init_created_at
        del: map_map)
next
  case (Some held)
  then have "sorted (map m_created_at held)"
    using assms(2) by (simp add: demo_in_step_def)
  then show ?thesis
    using Some by (simp add: demo_list_whole [OF assms(1)] demo_profiles_created_at del: map_map)
qed

lemma get_direct_messages_now: "now (snd (get_direct_messages w u d l)) = now w"
  by (simp add: get_direct_messages_def st_error_def Let_def case_prod_beta split: sum.splits)

lemma get_direct_messages_demo_key:
  "demo_messages (ss (snd (get_direct_messages w u2 d2 l))) k = demo_messages (ss w) k \<or>
   (\<exists>held. demo_messages (ss (snd (get_direct_messages w u2 d2 l))) k =
             Some (map (demo_profile u2) held) \<and>
           (demo_messages (ss w) k = Some held \<or>
            demo_messages (ss w) k = None \<and> held = demo_init u2 d2))"
proof (cases "d2 \<in> set demo_user_ids")
  case True
  show ?thesis
  proof (cases "k = u2 @ ''_'' @ d2")
    case k: True
    show ?thesis
      by (cases "demo_messages (ss w) k") (simp_all add: demo_list_whole [OF True] k)
  next
    case False
    then show ?thesis by (simp add: demo_list_whole [OF True])
  qed
next
  case False
  then show ?thesis
    by (simp add: get_direct_messages_def st_error_def case_prod_beta split: sum.splits)
qed

lemma demo_in_step_read:
  assumes "demo_in_step w u d"
  shows "demo_in_step (snd (get_direct_messages w u2 d2 l)) u d"
proof -
  let ?k = "u @ ''_'' @ d"
  let ?w' = "snd (get_direct_messages w u2 d2 l)"
  have n: "now ?w' = now w" by (rule get_direct_messages_now)
  have t: "1705312860 \<le> now w" using assms by (simp add: demo_in_step_def)
  from get_direct_messages_demo_key [of w u2 d2 l ?k]
  show ?thesis
  proof
    assume "demo_messages (ss ?w') ?k = demo_messages (ss w) ?k"
    then show ?thesis using assms n by (auto simp add: demo_in_step_def split: option.splits)
  next
    assume "\<exists>held. demo_messages (ss ?w') ?k = Some (map (demo_profile u2) held) \<and>
           (demo_messages (ss w) ?k = Some held \<or>
            demo_messages (ss w) ?k = None \<and> held = demo_init u2 d2)"
    then obtain held where h: "demo_messages (ss ?w') ?k = Some (map (demo_profile u2) held)"
      and c: "demo_messages (ss w) ?k = Some held \<or>
            demo_messages (ss w) ?k = None \<and> held = demo_init u2 d2" by blast
    have "sorted (map m_created_at held) \<and> (\<forall>m \<in> set held. m_created_at m \<le> now w)"
      using c
    proof
      assume "demo_messages (ss w) ?k = Some held"
      then show ?thesis using assms by (simp add: demo_in_step_def)
    next
      assume "demo_messages (ss w) ?k = None \<and> held = demo_init u2 d2"
      then show ?thesis using t by (simp add: demo_init_def)
    qed
    then show ?thesis
      using h n t by (auto simp add: demo_in_step_def demo_profile_created_at o_def)
  qed
qed

lemma demo_in_step_later: "demo_in_step w u d \<Longrightarrow> now w \<le> t \<Longrightarrow> demo_in_step (later w t) u d"
  by (auto simp add: demo_in_step_def later_def split: option.splits)

lemma demo_in_step_initial: "1705312860 \<le> t \<Longrightarrow> demo_in_step (initial_world t) u d"
  by (simp add: demo_in_step_def initial_world_def)

lemma send_message_session:
  "ss (snd (send_message w u c x)) = ss w \<and> now (snd (send_message w u c x)) = now w"
  by (simp add: send_message_def insert_message_def execute_def st_error_def Let_def
      split: option.splits)

lemma send_direct_message_session:
  "ss (snd (send_direct_message w u r x)) = ss w \<and> now (snd (send_direct_message w u r x)) = now w"
  by (simp add: send_direct_message_def insert_message_def execute_def st_error_def Let_def
      split: option.splits)

lemma send_direct_demo_stamp:
  "r \<in> set demo_user_ids \<Longrightarrow> fst (send_direct_message w u r x) = Some m \<Longrightarrow>
   m_created_at m = now w"
  by (auto simp add: send_direct_message_def)

lemma handle_send_now: "now (fst (handle_send w u b x)) = now w"
  using send_message_session [of w u _ x] send_direct_message_session [of w u _ x]
  by (auto simp add: handle_send_def case_prod_beta Let_def
      split: option.splits bool.splits)

lemma handle_send_demo_key:
  "demo_messages (ss (fst (handle_send w u2 b x))) k = demo_messages (ss w) k \<or>
   (\<exists>m. m_created_at m = now w \<and>
        demo_messages (ss (fst (handle_send w u2 b x))) k =
          Some ((case demo_messages (ss w) k of None \<Rightarrow> [] | Some held \<Rightarrow> held) @ [m]))"
  using send_message_session [of w u2 _ x] send_direct_message_session [of w u2 _ x]
    send_direct_demo_stamp [of _ w u2 x]
  by (auto simp add: handle_send_def case_prod_beta Let_def
      split: option.splits bool.splits)

lemma demo_in_step_send:
  assumes "demo_in_step w u d"
  shows "demo_in_step (fst (handle_send w u2 b x)) u d"
proof -
  let ?k = "u @ ''_'' @ d"
  let ?w' = "fst (handle_send w u2 b x)"
  have n: "now ?w' = now w" by (rule handle_send_now)
  from handle_send_demo_key [of w u2 b x ?k]
  show ?thesis
  proof
    assume "demo_messages (ss ?w') ?k = demo_messages (ss w) ?k"
    then show ?thesis using assms n by (auto simp add: demo_in_step_def split: option.splits)
  next
    assume "\<exists>m. m_created_at m = now w \<and>
        demo_messages (ss ?w') ?k =
          Some ((case demo_messages (ss w) ?k of None \<Rightarrow> [] | Some held \<Rightarrow> held) @ [m])"
    then obtain m where m: "m_created_at m = now w"
      and h: "demo_messages (ss ?w') ?k =
          Some ((case demo_messages (ss w) ?k of None \<Rightarrow> [] | Some held \<Rightarrow> held) @ [m])"
      by blast
    show ?thesis
      using assms n m h
      by (auto simp add: demo_in_step_def sorted_append split: option.splits)
  qed
qed

text \<open>
  C5, as stated, fails in four places. A demo conversation is returned whole: two
  greetings at limit 1, all 51 messages of a longer one at the default limit of 50. A
  repeated read is empty when the store fails it. Where two rows tie on \<open>created_at\<close>
  the query names no further key, and a store holding the same rows the other way round
  answers the repeated read in the other order. And a demo conversation posted to
  under a clock that reads earlier than the greetings' stamps is not in the order of
  its stamps.
\<close>

theorem lists_not_as_claimed:
  "length (fst (get_direct_messages (dm_world 1000 alex_user) ''u1'' alex 1)) = 2 \<and>
   length (fst (get_direct_messages crowded_world ''u1'' alex default_limit)) = 51 \<and>
   default_limit = 50 \<and>
   map m_id (fst (get_channel_messages flaky_world 1 2)) = [Key 2, Key 0] \<and>
   fst (get_channel_messages (snd (get_channel_messages flaky_world 1 2)) 1 2) = [] \<and>
   mset (messages (db (rearranged (snd (get_channel_messages tied_world 1 default_limit))))) =
     mset (messages (db tied_world)) \<and>
   map m_id (fst (get_channel_messages tied_world 1 default_limit)) = [Key 0, Key 1] \<and>
   map m_id (fst (get_channel_messages
        (rearranged (snd (get_channel_messages tied_world 1 default_limit))) 1 default_limit)) =
     [Key 1, Key 0] \<and>
   map m_created_at (fst (get_direct_messages
        (fst (handle_send (snd (get_direct_messages (dm_world 1000 alex_user) ''u1'' alex default_limit))
               ''u1'' True ''hi''))
        ''u1'' alex default_limit)) = [1705312800, 1705312860, 1000]"
proof -
  have a: "alex \<in> set demo_user_ids" by (simp add: alex_def demo_user_ids_def)
  have c1: "length (fst (get_direct_messages (dm_world 1000 alex_user) ''u1'' alex 1)) = 2"
    by (simp add: demo_list_whole [OF a] dm_world_def initial_world_def demo_init_def)
  have c2: "length (fst (get_direct_messages crowded_world ''u1'' alex default_limit)) = 51"
    by (simp add: demo_list_whole [OF a] dm_world_def initial_world_def demo_init_def
        crowded_world_def)
  have c3: "default_limit = 50" by (simp add: default_limit_def)
  have ff: "faults (db flaky_world) (calls (db flaky_world)) = None"
    by (simp add: flaky_world_def jumbled_world_def empty_store_def)
  have fr: "map m_id (channel_rows (messages (db flaky_world)) 1 2) = [Key 2, Key 0]"
    by (simp add: channel_rows_def flaky_world_def jumbled_world_def)
  have c4: "map m_id (fst (get_channel_messages flaky_world 1 2)) = [Key 2, Key 0]"
    by (simp add: get_channel_messages_ok [OF ff] attach_profiles_ids fr)
  have fl: "length (channel_rows (messages (db flaky_world)) 1 2) = 2"
    using fr by (metis length_map list.size(3,4) One_nat_def Suc_1 add.left_neutral plus_1_eq_Suc)
  have fc: "calls (db flaky_world) = 0" and f3: "faults (db flaky_world) (Suc (Suc (Suc 0))) = Some ''timeout''"
    by (simp_all add: flaky_world_def jumbled_world_def empty_store_def eval_nat_numeral)
  have c5: "fst (get_channel_messages (snd (get_channel_messages flaky_world 1 2)) 1 2) = []"
    by (rule get_channel_messages_fault [where e = "''timeout''"])
       (simp add: get_channel_messages_ok [OF ff] fl fc f3)
  have tf: "faults (db tied_world) (calls (db tied_world)) = None"
    by (simp add: tied_world_def empty_store_def)
  have c6: "mset (messages (db (rearranged (snd (get_channel_messages tied_world 1 default_limit))))) =
     mset (messages (db tied_world))"
    by (simp add: rearranged_rows get_channel_messages_rows)
  have c7: "map m_id (fst (get_channel_messages tied_world 1 default_limit)) = [Key 0, Key 1]"
    by (simp add: get_channel_messages_ok [OF tf] attach_profiles_ids)
       (simp add: channel_rows_def tied_world_def default_limit_def)
  define t2 where "t2 = rearranged (snd (get_channel_messages tied_world 1 default_limit))"
  have t2f: "faults (db t2) (calls (db t2)) = None"
    by (simp add: t2_def rearranged_rows get_channel_messages_rows) (simp add: tied_world_def empty_store_def)
  have t2m: "messages (db t2) = rev (messages (db tied_world))"
    by (simp add: t2_def rearranged_def get_channel_messages_rows)
  have c8: "map m_id (fst (get_channel_messages t2 1 default_limit)) = [Key 1, Key 0]"
    by (simp add: get_channel_messages_ok [OF t2f] attach_profiles_ids t2m)
       (simp add: channel_rows_def tied_world_def default_limit_def)
  define v where "v = snd (get_direct_messages (dm_world 1000 alex_user) ''u1'' alex default_limit)"
  have vv: "view_mode (ss v) = ''dm''" and vc: "current_dm_user (ss v) = Some alex_user"
    and vn: "now v = 1000"
    and vk: "demo_messages (ss v) (''u1'' @ ''_'' @ alex) =
               Some (map (demo_profile ''u1'') (demo_init ''u1'' alex))"
    by (simp_all add: v_def demo_list_whole [OF a] dm_world_def initial_world_def)
  have ad: "u_id alex_user \<in> set demo_user_ids" and ua: "u_id alex_user = alex"
    by (simp_all add: alex_user_def alex_def demo_user_ids_def)
  have sn: "strip ''hi'' \<noteq> []" by (simp add: strip_def isspace_def)
  have c9: "map m_created_at (fst (get_direct_messages (fst (handle_send v ''u1'' True ''hi''))
        ''u1'' alex default_limit)) = [1705312800, 1705312860, 1000]"
    using vk vn
    by (simp add: demo_list_whole [OF a] handle_send_demo [OF vv vc ad sn] ua
        demo_profile_created_at demo_init_created_at o_def)
  show ?thesis
    using c1 c2 c3 c4 c5 c6 c7 c8 c9 unfolding t2_def v_def by blast
qed

text \<open>
  C5, amended: the channel list, and the direct-message list with a counterpart that is
  no demo identity, are non-decreasing in \<open>created_at\<close> and hold at most \<open>limit\<close>
  messages; read again on a store that answers every call and holds the same rows and
  profiles, in whatever order, they are the same list, provided no two rows of the
  conversation share a stamp. For a demo identity the list is the whole conversation
  held in the session, whatever the limit, and reading it again returns the same list;
  it is non-decreasing in \<open>created_at\<close> as long as the conversation is in step with the
  clock, which a session that starts no earlier than the greetings' stamps is, and
  which reading, posting and a clock that moves on keep.
\<close>

theorem lists_sorted_capped_stable:
  "sorted (map m_created_at (fst (get_channel_messages w c l))) \<and>
   length (fst (get_channel_messages w c l)) \<le> l \<and>
   ((\<forall>n. faults (db w) n = None) \<and> (\<forall>n. faults (db w2) n = None) \<and>
    user_profiles (db w2) = user_profiles (db w) \<and>
    mset (messages (db w2)) = mset (messages (db w)) \<and>
    distinct (map m_created_at (filter (\<lambda>m. m_channel_id m = Some c) (messages (db w)))) \<longrightarrow>
      fst (get_channel_messages w2 c l) = fst (get_channel_messages w c l)) \<and>
   (other \<notin> set demo_user_ids \<longrightarrow>
      sorted (map m_created_at (fst (get_direct_messages w u other l))) \<and>
      length (fst (get_direct_messages w u other l)) \<le> l \<and>
      ((\<forall>n. faults (db w) n = None) \<and> (\<forall>n. faults (db w2) n = None) \<and>
       user_profiles (db w2) = user_profiles (db w) \<and>
       mset (messages (db w2)) = mset (messages (db w)) \<and>
       distinct (map m_created_at
         (filter (\<lambda>m. m_channel_id m = None \<and>
                   ((m_user_id m = u \<and> m_recipient_id m = Some other) \<or>
                    (m_user_id m = other \<and> m_recipient_id m = Some u))) (messages (db w)))) \<longrightarrow>
         fst (get_direct_messages w2 u other l) = fst (get_direct_messages w u other l))) \<and>
   (d \<in> set demo_user_ids \<longrightarrow>
      fst (get_direct_messages w u d l) =
        map (demo_profile u)
          (case demo_messages (ss w) (u @ ''_'' @ d) of
             None \<Rightarrow> demo_init u d | Some held \<Rightarrow> held) \<and>
      fst (get_direct_messages (snd (get_direct_messages w u d l)) u d l) =
      fst (get_direct_messages w u d l) \<and>
      (demo_in_step w u d \<longrightarrow>
         sorted (map m_created_at (fst (get_direct_messages w u d l))) \<and>
         demo_in_step (snd (get_direct_messages w u2 d2 l2)) u d \<and>
         demo_in_step (fst (handle_send w u2 b x)) u d \<and>
         (now w \<le> t \<longrightarrow> demo_in_step (later w t) u d))) \<and>
   (1705312860 \<le> t0 \<longrightarrow> demo_in_step (initial_world t0) u d)"
proof (intro conjI impI)
  show "sorted (map m_created_at (fst (get_channel_messages w c l)))"
    and "length (fst (get_channel_messages w c l)) \<le> l"
    using channel_list_sorted_capped [of w c l] by simp_all
  show "fst (get_channel_messages w2 c l) = fst (get_channel_messages w c l)"
    if "(\<forall>n. faults (db w) n = None) \<and> (\<forall>n. faults (db w2) n = None) \<and>
        user_profiles (db w2) = user_profiles (db w) \<and>
        mset (messages (db w2)) = mset (messages (db w)) \<and>
        distinct (map m_created_at (filter (\<lambda>m. m_channel_id m = Some c) (messages (db w))))"
    using that by (intro channel_list_same_rows) simp_all
  show "sorted (map m_created_at (fst (get_direct_messages w u other l)))"
    and "length (fst (get_direct_messages w u other l)) \<le> l"
    if "other \<notin> set demo_user_ids"
    using dm_list_sorted_capped [OF that, of w u l] by simp_all
  show "fst (get_direct_messages w2 u other l) = fst (get_direct_messages w u other l)"
    if "other \<notin> set demo_user_ids"
      and "(\<forall>n. faults (db w) n = None) \<and> (\<forall>n. faults (db w2) n = None) \<and>
       user_profiles (db w2) = user_profiles (db w) \<and>
       mset (messages (db w2)) = mset (messages (db w)) \<and>
       distinct (map m_created_at
         (filter (\<lambda>m. m_channel_id m = None \<and>
                   ((m_user_id m = u \<and> m_recipient_id m = Some other) \<or>
                    (m_user_id m = other \<and> m_recipient_id m = Some u))) (messages (db w))))"
    using that by (intro dm_list_same_rows) simp_all
  show "fst (get_direct_messages w u d l) =
        map (demo_profile u)
          (case demo_messages (ss w) (u @ ''_'' @ d) of
             None \<Rightarrow> demo_init u d | Some held \<Rightarrow> held)"
    if "d \<in> set demo_user_ids"
    by (simp add: demo_list_whole [OF that])
  show "fst (get_direct_messages (snd (get_direct_messages w u d l)) u d l) =
      fst (get_direct_messages w u d l)"
    if "d \<in> set demo_user_ids"
    using that by (rule demo_list_repeat)
  show "sorted (map m_created_at (fst (get_direct_messages w u d l)))"
    if "d \<in> set demo_user_ids" and "demo_in_step w u d"
    using that by (rule demo_list_sorted)
  show "demo_in_step (snd (get_direct_messages w u2 d2 l2)) u d" if "demo_in_step w u d"
    using that by (rule demo_in_step_read)
  show "demo_in_step (fst (handle_send w u2 b x)) u d" if "demo_in_step w u d"
    using that by (rule demo_in_step_send)
  show "demo_in_step (later w t) u d" if "demo_in_step w u d" and "now w \<le> t"
    using that by (rule demo_in_step_later)
  show "demo_in_step (initial_world t0) u d" if "1705312860 \<le> t0"
    using that by (rule demo_in_step_initial)
qed

theorem lists_sorted_capped_stable_witness:
  "faults (db jumbled_world) = (\<lambda>n. None) \<and>
   ''u2'' \<notin> set demo_user_ids \<and> alex \<in> set demo_user_ids \<and>
   map m_id (fst (get_channel_messages jumbled_world 1 1)) = [Key 2] \<and>
   map m_id (fst (get_channel_messages jumbled_world 1 2)) = [Key 2, Key 0] \<and>
   map m_created_at (fst (get_channel_messages jumbled_world 1 2)) = [3, 5] \<and>
   mset (messages (db (rearranged (snd (get_channel_messages jumbled_world 1 2))))) =
     mset (messages (db jumbled_world)) \<and>
   fst (get_channel_messages (rearranged (snd (get_channel_messages jumbled_world 1 2))) 1 2) =
     fst (get_channel_messages jumbled_world 1 2) \<and>
   map m_id (fst (get_direct_messages jumbled_world ''u1'' ''u2'' 1)) = [Key 3] \<and>
   map m_created_at (fst (get_direct_messages jumbled_world ''u1'' ''u2'' 2)) = [4, 7] \<and>
   fst (get_direct_messages (rearranged (snd (get_direct_messages jumbled_world ''u1'' ''u2'' 2)))
          ''u1'' ''u2'' 2) =
     fst (get_direct_messages jumbled_world ''u1'' ''u2'' 2) \<and>
   demo_in_step (dm_world 1800000000 alex_user) ''u1'' alex \<and>
   map m_created_at
     (fst (get_direct_messages
        (later (fst (handle_send
                       (snd (get_direct_messages (dm_world 1800000000 alex_user) ''u1'' alex
                               default_limit))
                       ''u1'' True ''hi'')) 1800000009)
        ''u1'' alex default_limit)) = [1705312800, 1705312860, 1800000000] \<and>
   sorted (map m_created_at
     (fst (get_direct_messages
        (later (fst (handle_send
                       (snd (get_direct_messages (dm_world 1800000000 alex_user) ''u1'' alex
                               default_limit))
                       ''u1'' True ''hi'')) 1800000009)
        ''u1'' alex default_limit)))"
proof -
  have z: "faults (db jumbled_world) = (\<lambda>n. None)"
    by (simp add: jumbled_world_def empty_store_def)
  have f: "faults (db jumbled_world) (calls (db jumbled_world)) = None"
    by (simp add: z)
  have o: "''u2'' \<notin> set demo_user_ids" and a: "alex \<in> set demo_user_ids"
    by (simp_all add: demo_user_ids_def alex_def)
  have g1: "map m_id (fst (get_channel_messages jumbled_world 1 1)) = [Key 2]"
    by (simp add: get_channel_messages_ok [OF f] attach_profiles_ids)
       (simp add: channel_rows_def jumbled_world_def)
  have g2: "map m_id (fst (get_channel_messages jumbled_world 1 2)) = [Key 2, Key 0]"
    by (simp add: get_channel_messages_ok [OF f] attach_profiles_ids)
       (simp add: channel_rows_def jumbled_world_def)
  have g3: "map m_created_at (fst (get_channel_messages jumbled_world 1 2)) = [3, 5]"
    by (simp add: get_channel_messages_ok [OF f] attach_profiles_created_at)
       (simp add: channel_rows_def jumbled_world_def)
  have d1: "map m_id (fst (get_direct_messages jumbled_world ''u1'' ''u2'' 1)) = [Key 3]"
    by (simp add: get_direct_messages_ok [OF f o] attach_profiles_ids)
       (simp add: dm_rows_def jumbled_world_def)
  have d2: "map m_created_at (fst (get_direct_messages jumbled_world ''u1'' ''u2'' 2)) = [4, 7]"
    by (simp add: get_direct_messages_ok [OF f o] attach_profiles_created_at)
       (simp add: dm_rows_def jumbled_world_def)
  define c2 where "c2 = rearranged (snd (get_channel_messages jumbled_world 1 2))"
  define e2 where "e2 = rearranged (snd (get_direct_messages jumbled_world ''u1'' ''u2'' 2))"
  have cm: "mset (messages (db c2)) = mset (messages (db jumbled_world))"
    and cp: "user_profiles (db c2) = user_profiles (db jumbled_world)"
    and cf: "faults (db c2) = (\<lambda>n. None)"
    by (simp_all add: c2_def rearranged_rows get_channel_messages_rows z)
  have em: "mset (messages (db e2)) = mset (messages (db jumbled_world))"
    and ep: "user_profiles (db e2) = user_profiles (db jumbled_world)"
    and ef: "faults (db e2) = (\<lambda>n. None)"
    by (simp_all add: e2_def rearranged_rows get_direct_messages_rows z)
  have dc: "distinct (map m_created_at
       (filter (\<lambda>m. m_channel_id m = Some 1) (messages (db jumbled_world))))"
    by (simp add: jumbled_world_def)
  have dd: "distinct (map m_created_at
         (filter (\<lambda>m. m_channel_id m = None \<and>
                   ((m_user_id m = ''u1'' \<and> m_recipient_id m = Some ''u2'') \<or>
                    (m_user_id m = ''u2'' \<and> m_recipient_id m = Some ''u1'')))
            (messages (db jumbled_world))))"
    by (simp add: jumbled_world_def)
  have r1: "fst (get_channel_messages c2 1 2) = fst (get_channel_messages jumbled_world 1 2)"
    using lists_sorted_capped_stable [where w = jumbled_world and ?w2.0 = c2 and c = 1 and l = 2]
      z cf cp cm dc
    by simp
  have r2: "fst (get_direct_messages e2 ''u1'' ''u2'' 2) =
            fst (get_direct_messages jumbled_world ''u1'' ''u2'' 2)"
    using lists_sorted_capped_stable [where w = jumbled_world and ?w2.0 = e2 and l = 2
        and other = "''u2''" and u = "''u1''"] z ef ep em dd o
    by simp
  define v0 where "v0 = dm_world 1800000000 alex_user"
  define v where "v = snd (get_direct_messages v0 ''u1'' alex default_limit)"
  define p where "p = fst (handle_send v ''u1'' True ''hi'')"
  define q where "q = later p 1800000009"
  have i0: "demo_in_step v0 ''u1'' alex"
    by (simp add: v0_def demo_in_step_def dm_world_def initial_world_def)
  have vv: "view_mode (ss v) = ''dm''" and vc: "current_dm_user (ss v) = Some alex_user"
    and vn: "now v = 1800000000"
    and vk: "demo_messages (ss v) (''u1'' @ ''_'' @ alex) =
               Some (map (demo_profile ''u1'') (demo_init ''u1'' alex))"
    by (simp_all add: v_def v0_def demo_list_whole [OF a] dm_world_def initial_world_def)
  have ad: "u_id alex_user \<in> set demo_user_ids" and ua: "u_id alex_user = alex"
    by (simp_all add: alex_user_def alex_def demo_user_ids_def)
  have sn: "strip ''hi'' \<noteq> []" by (simp add: strip_def isspace_def)
  have pk: "map_option (map m_created_at) (demo_messages (ss p) (''u1'' @ ''_'' @ alex)) =
            Some [1705312800, 1705312860, 1800000000]"
    using vk vn
    by (simp add: p_def handle_send_demo [OF vv vc ad sn] ua demo_profile_created_at
        demo_init_created_at o_def)
  have qs: "ss q = ss p"
    by (simp add: q_def later_def)
  have l1: "map m_created_at (fst (get_direct_messages q ''u1'' alex default_limit)) =
            [1705312800, 1705312860, 1800000000]"
    using pk by (auto simp add: demo_list_whole [OF a] qs demo_profile_created_at o_def)
  have iv: "demo_in_step v ''u1'' alex"
    using lists_sorted_capped_stable [where w = v0 and u = "''u1''" and d = alex
        and ?u2.0 = "''u1''" and ?d2.0 = alex and ?l2.0 = default_limit] a i0
    unfolding v_def by blast
  have ip: "demo_in_step p ''u1'' alex"
    using lists_sorted_capped_stable [where w = v and u = "''u1''" and d = alex
        and ?u2.0 = "''u1''" and b = True and x = "''hi''"] a iv
    unfolding p_def by blast
  have pn: "now p \<le> 1800000009"
    by (simp add: p_def handle_send_now vn)
  have iq: "demo_in_step q ''u1'' alex"
    using lists_sorted_capped_stable [where w = p and u = "''u1''" and d = alex
        and t = 1800000009] a ip pn
    unfolding q_def by blast
  have l2: "sorted (map m_created_at (fst (get_direct_messages q ''u1'' alex default_limit)))"
    using lists_sorted_capped_stable [where w = q and u = "''u1''" and d = alex
        and l = default_limit] a iq
    by blast
  show ?thesis
    using z o a g1 g2 g3 d1 d2 cm r1 r2 i0 l1 l2
    unfolding c2_def e2_def v0_def v_def p_def q_def by blast
qed

section \<open>The demo conversations and the store\<close>

lemma channel_list_db:
  "db w1 = db w2 \<Longrightarrow> fst (get_channel_messages w1 c l) = fst (get_channel_messages w2 c l)"
  by (simp add: get_channel_messages_def case_prod_beta split: sum.splits)

lemma dm_list_db:
  "db w1 = db w2 \<Longrightarrow> other \<notin> set demo_user_ids \<Longrightarrow>
   fst (get_direct_messages w1 u other l) = fst (get_direct_messages w2 u other l)"
  by (simp add: get_direct_messages_def case_prod_beta split: sum.splits)

lemma attach_profiles_rows:
  "m \<in> set (fst (attach_profiles s ms)) \<Longrightarrow>
   \<exists>r \<in> set ms. m = r\<lparr>m_user_profiles := m_user_profiles m\<rparr>"
  by (induction ms arbitrary: s) (auto simp add: lookup_profile_eq case_prod_beta)

lemma channel_rows_stored: "set (channel_rows tbl c l) \<subseteq> set tbl"
  unfolding channel_rows_def using set_take_subset [of l] by fastforce

lemma dm_rows_stored: "set (dm_rows tbl u other l) \<subseteq> set tbl"
  unfolding dm_rows_def using set_take_subset [of l] by fastforce

lemma channel_list_stored:
  "m \<in> set (fst (get_channel_messages w c l)) \<Longrightarrow>
   \<exists>r \<in> set (messages (db w)). m = r\<lparr>m_user_profiles := m_user_profiles m\<rparr>"
proof (cases "faults (db w) (calls (db w))")
  case None
  assume "m \<in> set (fst (get_channel_messages w c l))"
  then obtain r where "r \<in> set (channel_rows (messages (db w)) c l)"
    and "m = r\<lparr>m_user_profiles := m_user_profiles m\<rparr>"
    using attach_profiles_rows by (fastforce simp add: get_channel_messages_ok [OF None])
  then show ?thesis using channel_rows_stored by blast
next
  case (Some e)
  assume "m \<in> set (fst (get_channel_messages w c l))"
  then show ?thesis by (simp add: get_channel_messages_fault [OF Some])
qed

lemma dm_list_stored:
  assumes "other \<notin> set demo_user_ids" and "m \<in> set (fst (get_direct_messages w u other l))"
  shows "\<exists>r \<in> set (messages (db w)). m = r\<lparr>m_user_profiles := m_user_profiles m\<rparr>"
proof (cases "faults (db w) (calls (db w))")
  case None
  obtain r where "r \<in> set (dm_rows (messages (db w)) u other l)"
    and "m = r\<lparr>m_user_profiles := m_user_profiles m\<rparr>"
    using attach_profiles_rows assms by (fastforce simp add: get_direct_messages_ok [OF None])
  then show ?thesis using dm_rows_stored by blast
next
  case (Some e)
  then show ?thesis using assms by (simp add: get_direct_messages_fault [OF Some])
qed

lemma handle_send_demo_db:
  assumes "view_mode (ss w) = ''dm''" and "current_dm_user (ss w) = Some du"
    and "u_id du \<in> set demo_user_ids"
  shows "db (fst (handle_send w u b x)) = db w \<and> shown (fst (handle_send w u b x)) = shown w"
proof (cases "b \<and> strip x \<noteq> []")
  case True
  then show ?thesis using assms by (simp add: handle_send_demo)
next
  case False
  then show ?thesis by (auto simp add: handle_send_def)
qed

text \<open>
  C4: for a demo identity \<open>d\<close>, reading the conversation with \<open>d\<close> and posting to it
  leave the store exactly as it was, its count of calls included: no request is made.
  After the handler has posted to the demo conversation, every channel list and every
  direct-message list with a counterpart that is no demo identity is what it was
  before, and each message such a list returns is a row of the \<open>messages\<close> table with a
  profile attached.
\<close>

theorem demo_overlay_isolated:
  assumes "d \<in> set demo_user_ids" and "other \<notin> set demo_user_ids"
    and "view_mode (ss w) = ''dm''" and "current_dm_user (ss w) = Some du" and "u_id du = d"
  shows "db (snd (get_direct_messages w u d l)) = db w \<and>
         snd (send_direct_message w u d x) = w \<and>
         db (fst (handle_send w u b x)) = db w \<and>
         fst (get_channel_messages (fst (handle_send w u b x)) c l) =
           fst (get_channel_messages w c l) \<and>
         fst (get_direct_messages (fst (handle_send w u b x)) u2 other l) =
           fst (get_direct_messages w u2 other l) \<and>
         (\<forall>m \<in> set (fst (get_channel_messages (fst (handle_send w u b x)) c l)).
            \<exists>r \<in> set (messages (db w)). m = r\<lparr>m_user_profiles := m_user_profiles m\<rparr>) \<and>
         (\<forall>m \<in> set (fst (get_direct_messages (fst (handle_send w u b x)) u2 other l)).
            \<exists>r \<in> set (messages (db w)). m = r\<lparr>m_user_profiles := m_user_profiles m\<rparr>)"
proof -
  have h: "db (fst (handle_send w u b x)) = db w"
    using handle_send_demo_db assms by simp
  have 1: "db (snd (get_direct_messages w u d l)) = db w"
    by (simp add: demo_list_whole [OF assms(1)])
  have 2: "snd (send_direct_message w u d x) = w"
    using assms(1) by (rule send_demo_world)
  have 3: "fst (get_channel_messages (fst (handle_send w u b x)) c l) = fst (get_channel_messages w c l)"
    using h by (rule channel_list_db)
  have 4: "fst (get_direct_messages (fst (handle_send w u b x)) u2 other l) =
           fst (get_direct_messages w u2 other l)"
    using h assms(2) by (rule dm_list_db)
  have 5: "\<forall>m \<in> set (fst (get_channel_messages (fst (handle_send w u b x)) c l)).
            \<exists>r \<in> set (messages (db w)). m = r\<lparr>m_user_profiles := m_user_profiles m\<rparr>"
    unfolding 3 using channel_list_stored by blast
  have 6: "\<forall>m \<in> set (fst (get_direct_messages (fst (handle_send w u b x)) u2 other l)).
            \<exists>r \<in> set (messages (db w)). m = r\<lparr>m_user_profiles := m_user_profiles m\<rparr>"
    unfolding 4 using dm_list_stored [OF assms(2)] by blast
  show ?thesis using h 1 2 3 4 5 6 by blast
qed



theorem demo_overlay_isolated_witness:
  "alex \<in> set demo_user_ids \<and> ''u2'' \<notin> set demo_user_ids \<and>
   view_mode (ss (dm_world 1000 alex_user)) = ''dm'' \<and>
   current_dm_user (ss (dm_world 1000 alex_user)) = Some alex_user \<and> u_id alex_user = alex \<and>
   map_option (map m_content)
     (demo_messages (ss (fst (handle_send (dm_world 1000 alex_user) ''u1'' True ''hi'')))
        (''u1'' @ ''_'' @ alex)) = Some [''hi''] \<and>
   db (fst (handle_send (dm_world 1000 alex_user) ''u1'' True ''hi'')) = empty_store \<and>
   db (snd (get_direct_messages (dm_world 1000 alex_user) ''u1'' alex default_limit)) = empty_store \<and>
   fst (get_channel_messages (fst (handle_send (dm_world 1000 alex_user) ''u1'' True ''hi'')) 1
          default_limit) = [] \<and>
   fst (get_direct_messages (fst (handle_send (dm_world 1000 alex_user) ''u1'' True ''hi'')) ''u1''
          ''u2'' default_limit) = []"
proof -
  have a: "alex \<in> set demo_user_ids" and o: "''u2'' \<notin> set demo_user_ids"
    by (simp_all add: demo_user_ids_def alex_def)
  have v: "view_mode (ss (dm_world 1000 alex_user)) = ''dm''"
    and c: "current_dm_user (ss (dm_world 1000 alex_user)) = Some alex_user"
    and i: "u_id alex_user = alex"
    and e: "db (dm_world 1000 alex_user) = empty_store"
    and k: "demo_messages (ss (dm_world 1000 alex_user)) (''u1'' @ ''_'' @ alex) = None"
    by (simp_all add: dm_world_def initial_world_def alex_user_def alex_def)
  have f: "faults (db (dm_world 1000 alex_user)) (calls (db (dm_world 1000 alex_user))) = None"
    by (simp add: e empty_store_def)
  have s: "strip ''hi'' = ''hi''"
    by (simp add: strip_def isspace_def)
  have ai: "u_id alex_user \<in> set demo_user_ids"
    using a i by simp
  have h: "map_option (map m_content)
     (demo_messages (ss (fst (handle_send (dm_world 1000 alex_user) ''u1'' True ''hi'')))
        (''u1'' @ ''_'' @ alex)) = Some [''hi'']"
    using k by (simp add: handle_send_demo [OF v c ai] s i)
  have g: "fst (get_channel_messages (dm_world 1000 alex_user) 1 default_limit) = []"
    by (simp add: get_channel_messages_ok [OF f] e channel_rows_def empty_store_def)
  have gd: "fst (get_direct_messages (dm_world 1000 alex_user) ''u1'' ''u2'' default_limit) = []"
    by (simp add: get_direct_messages_ok [OF f o] e dm_rows_def empty_store_def)
  show ?thesis
    using demo_overlay_isolated [OF a o v c i, of "''u1''" default_limit "''hi''" True 1 "''u1''"]
      a o v c i h
    by (simp add: e g gd)
qed

section \<open>Posting to a channel, then listing it\<close>

lemma insort_key_snoc:
  "f y \<le> f x \<Longrightarrow> insort_key f y (zs @ [x]) = insort_key f y zs @ [x]"
  by (induction zs) simp_all

lemma sort_key_snoc:
  "\<forall>y \<in> set xs. f y \<le> f x \<Longrightarrow> sort_key f (xs @ [x]) = sort_key f xs @ [x]"
  by (induction xs) (simp_all add: insort_key_snoc)

lemma channel_rows_full:
  assumes "m_channel_id new = Some c"
    and "\<forall>m \<in> set tbl. m_channel_id m = Some c \<longrightarrow> m_created_at m \<le> m_created_at new"
    and "l \<le> length (filter (\<lambda>m. m_channel_id m = Some c) tbl)"
  shows "channel_rows (tbl @ [new]) c l = channel_rows tbl c l"
proof -
  have "sort_key m_created_at (filter (\<lambda>m. m_channel_id m = Some c) tbl @ [new]) =
        sort_key m_created_at (filter (\<lambda>m. m_channel_id m = Some c) tbl) @ [new]"
    using assms(2) by (intro sort_key_snoc) auto
  then show ?thesis using assms(1,3) by (simp add: channel_rows_def)
qed

lemma channel_rows_room:
  assumes "m_channel_id new = Some c"
    and "\<forall>m \<in> set tbl. m_channel_id m = Some c \<longrightarrow> m_created_at m \<le> m_created_at new"
    and "length (filter (\<lambda>m. m_channel_id m = Some c) tbl) < l"
  shows "channel_rows (tbl @ [new]) c l = channel_rows tbl c l @ [new]"
proof -
  have "sort_key m_created_at (filter (\<lambda>m. m_channel_id m = Some c) tbl @ [new]) =
        sort_key m_created_at (filter (\<lambda>m. m_channel_id m = Some c) tbl) @ [new]"
    using assms(2) by (intro sort_key_snoc) auto
  then show ?thesis using assms(1,3) by (simp add: channel_rows_def)
qed

lemma busy_rows: "channel_rows (messages (db busy_world)) 1 default_limit = messages (db busy_world)"
proof -
  have s: "sorted (map real [0..<50])"
    by (simp add: sorted_map sorted_wrt_iff_nth_less)
  have "sort_key m_created_at (messages (db busy_world)) = messages (db busy_world)"
    by (rule sort_key_id_if_sorted) (simp add: busy_world_def o_def s)
  then show ?thesis
    by (simp add: channel_rows_def default_limit_def) (simp add: busy_world_def o_def)
qed

text \<open>
  Below the limit the list does end with the message just posted, as long as no older
  message of the channel is stamped later than the clock.
\<close>

lemma attach_profiles_last:
  assumes "ms \<noteq> []"
  shows "last (fst (attach_profiles s ms)) =
     (last ms)\<lparr>m_user_profiles :=
        Some (profile_at s (calls s + (length ms - 1)) (m_user_id (last ms)))\<rparr>"
proof -
  have ne: "fst (attach_profiles s ms) \<noteq> []"
    using assms attach_profiles_length [of s ms] by (metis length_0_conv)
  have i: "length ms - 1 < length ms"
    using assms by simp
  have "last (fst (attach_profiles s ms)) = fst (attach_profiles s ms) ! (length ms - 1)"
    using ne by (simp add: last_conv_nth attach_profiles_length)
  also have "\<dots> = (ms ! (length ms - 1))\<lparr>m_user_profiles :=
        Some (profile_at s (calls s + (length ms - 1)) (m_user_id (ms ! (length ms - 1))))\<rparr>"
    using i by (rule attach_profiles_nth)
  finally show ?thesis
    using assms by (simp add: last_conv_nth)
qed

lemma post_listed_last_with_room:
  assumes "faults (db w) (calls (db w)) = None" and "faults (db w) (Suc (calls (db w))) = None"
    and "length (filter (\<lambda>m. m_channel_id m = Some c) (messages (db w))) < l"
    and "\<forall>m \<in> set (messages (db w)). m_channel_id m = Some c \<longrightarrow> m_created_at m \<le> now w"
  shows "\<exists>row p. fst (send_message w u c x) = Some row \<and>
           fst (get_channel_messages (snd (send_message w u c x)) c l) \<noteq> [] \<and>
           last (fst (get_channel_messages (snd (send_message w u c x)) c l)) =
             row\<lparr>m_user_profiles := Some p\<rparr>"
proof -
  define new where "new = \<lparr>m_id = Key (next_id (db w)), m_user_id = u, m_channel_id = Some c,
            m_recipient_id = None, m_content = strip x, m_message_type = ''text'',
            m_created_at = now w, m_user_profiles = None\<rparr>"
  define w1 where "w1 = snd (send_message w u c x)"
  define s1 where "s1 = (db w1)\<lparr>calls := Suc (calls (db w1))\<rparr>"
  define rows where "rows = channel_rows (messages (db w)) c l @ [new]"
  have sent: "fst (send_message w u c x) = Some new"
    by (simp add: send_message_ok [OF assms(1)] new_def)
  have m1: "messages (db w1) = messages (db w) @ [new]"
    by (simp add: w1_def send_message_ok [OF assms(1)] new_def)
  have f1: "faults (db w1) (calls (db w1)) = None"
    using assms(2) by (simp add: w1_def send_message_ok [OF assms(1)])
  have nc: "m_channel_id new = Some c" and nt: "m_created_at new = now w"
    by (simp_all add: new_def)
  have r: "channel_rows (messages (db w1)) c l = rows"
    unfolding m1 rows_def using nc assms(3,4) by (intro channel_rows_room) (simp_all add: nt)
  have g: "fst (get_channel_messages w1 c l) = fst (attach_profiles s1 rows)"
    by (simp add: get_channel_messages_ok [OF f1] r s1_def)
  have rn: "rows \<noteq> []" and rl: "last rows = new"
    by (simp_all add: rows_def)
  have "fst (attach_profiles s1 rows) \<noteq> []"
    using rn attach_profiles_length [of s1 rows] by (metis length_0_conv)
  moreover have "last (fst (attach_profiles s1 rows)) =
     new\<lparr>m_user_profiles := Some (profile_at s1 (calls s1 + (length rows - 1)) (m_user_id new))\<rparr>"
    using attach_profiles_last [OF rn, of s1] by (simp add: rl)
  ultimately show ?thesis
    unfolding w1_def [symmetric] g using sent by blast
qed

text \<open>
  C2 on a channel that already holds fifty messages: the message posted gets id 50, and
  the list read straight after, with the default limit, is the fifty older messages
  with ids 0 to 49. The select orders ascending and keeps the first \<open>limit\<close> rows, so
  the new message is not in the list.
\<close>

theorem post_to_full_channel_unlisted:
  "map_option m_id (fst (send_message busy_world ''u1'' 1 ''hello'')) = Some (Key 50) \<and>
   map m_id (fst (get_channel_messages (snd (send_message busy_world ''u1'' 1 ''hello'')) 1 default_limit)) =
     map Key [0..<50] \<and>
   Key 50 \<notin> set (map m_id
     (fst (get_channel_messages (snd (send_message busy_world ''u1'' 1 ''hello'')) 1 default_limit)))"
proof -
  have f: "faults (db busy_world) (calls (db busy_world)) = None"
    and n: "next_id (db busy_world) = 50"
    and t: "now busy_world = 2000"
    by (simp_all add: busy_world_def empty_store_def channel_world_def initial_world_def)
  let ?new = "\<lparr>m_id = Key 50, m_user_id = ''u1'', m_channel_id = Some 1,
            m_recipient_id = None, m_content = strip ''hello'', m_message_type = ''text'',
            m_created_at = 2000, m_user_profiles = None\<rparr>"
  let ?w1 = "snd (send_message busy_world ''u1'' 1 ''hello'')"
  have sent: "send_message busy_world ''u1'' 1 ''hello'' =
     (Some ?new, busy_world\<lparr>db := (db busy_world)\<lparr>calls := Suc (calls (db busy_world)),
                      messages := messages (db busy_world) @ [?new],
                      next_id := Suc (next_id (db busy_world))\<rparr>\<rparr>)"
    using send_message_ok [OF f, of "''u1''" 1 "''hello''"] by (simp add: n t)
  have f1: "faults (db ?w1) (calls (db ?w1)) = None"
    unfolding sent by (simp add: busy_world_def empty_store_def)
  have m1: "messages (db ?w1) = messages (db busy_world) @ [?new]"
    unfolding sent by simp
  have rows: "channel_rows (messages (db ?w1)) 1 default_limit = messages (db busy_world)"
    unfolding m1
    by (subst channel_rows_full) (simp_all add: busy_rows, simp_all add: busy_world_def default_limit_def o_def)
  have ids: "map m_id (fst (get_channel_messages ?w1 1 default_limit)) = map Key [0..<50]"
    by (simp add: get_channel_messages_ok [OF f1] rows attach_profiles_ids)
       (simp add: busy_world_def o_def)
  show ?thesis
    unfolding ids by (auto simp add: sent)
qed

end
